theory Spec2Isabelle
  imports Main "HOL-Library.Sublist"
begin

section \<open>The MSSQL credential plugin (plugins/database/mssql/mssql.go)\<close>

text \<open>
  The plugin talks to collaborators that are not part of the file: the connection
  producer, the SQL handle, the transaction helper \<open>dbtxn\<close>, the username generator.
  Every call to one of them is an \<open>event\<close>; a run of an operation takes the trace of
  events so far and returns it extended. What a collaborator answers is given by an
  environment \<open>env\<close>, whose answers may depend on the whole trace so far (so the
  database may change its mind from call to call).
\<close>

subsection \<open>Errors\<close>

text \<open>
  Errors that collaborators raise are opaque to the plugin, except that it compares a
  probe's error with the sentinel \<open>sql.ErrNoRows\<close>.
\<close>

datatype ext_error = ErrNoRows | Fault string

text \<open>
  The errors the plugin returns: a collaborator's error as it is, the sentinel
  \<open>dbutil.ErrEmptyCreationStatement\<close>, a fresh error of \<open>errors.New\<close> or of
  \<open>fmt.Errorf\<close> without verb, \<open>fmt.Errorf\<close> with \<open>%w\<close> (the format is kept),
  \<open>errwrap.Wrapf\<close> (the format is kept) and a \<open>*multierror.Error\<close>.
\<close>

datatype error =
    External ext_error
  | ErrEmptyCreationStatement
  | ErrorNew string
  | Errorf string error
  | Wrapf string error
  | MultiError "error list"

subsection \<open>Events and the environment\<close>

type_synonym placeholders = "(string \<times> string) list"

text \<open>A configuration (\<open>map[string]interface{}\<close>), its values taken as text.\<close>

type_synonym config = "(string \<times> string) list"

datatype event =
    EvInit config bool "ext_error option"
  | EvLock
  | EvUnlock
  | EvConnection "ext_error option"
  | EvGenerateUsername "ext_error + string"
  | EvBeginTx "ext_error option"
  | EvExecuteTxQuery placeholders string "ext_error option"
  | EvCommit "ext_error option"
  | EvRollback
  | EvExecuteDBQuery placeholders string "ext_error option"
  | EvPrepareContext string "ext_error option"
  | EvExecContext string "ext_error option"
  | EvQueryContext string "string list" "ext_error option"
  | EvQueryRowScan string "string list" "ext_error option"
  | EvRowsErr string "ext_error option"
  | EvStmtClose string
  | EvRowsClose string

type_synonym trace = "event list"

text \<open>
  A result set as the plugin reads it: the outcome of \<open>Scan\<close> for each row that
  \<open>Next\<close> delivers, and what \<open>Err\<close> reports once \<open>Next\<close> has returned false.
\<close>

record 'a Rows =
  scans :: "(ext_error + 'a) list"
  Err :: "ext_error option"

text \<open>A row of \<open>sp_msloginmappings\<close>: four \<open>sql.NullString\<close> columns.\<close>

record mapping_row =
  loginName :: "string option"
  dbName :: "string option"
  qUsername :: "string option"
  aliasName :: "string option"

type_synonym time = int

record env =
  reply_Init :: "trace \<Rightarrow> config \<Rightarrow> bool \<Rightarrow> ext_error + config"
  reply_Connection :: "trace \<Rightarrow> ext_error option"
  reply_GenerateUsername ::
    "trace \<Rightarrow> string \<Rightarrow> nat \<Rightarrow> string \<Rightarrow> nat \<Rightarrow> nat \<Rightarrow> string \<Rightarrow> ext_error + string"
  reply_Format :: "time \<Rightarrow> string \<Rightarrow> string"
  reply_BeginTx :: "trace \<Rightarrow> ext_error option"
  reply_ExecuteTxQuery :: "trace \<Rightarrow> placeholders \<Rightarrow> string \<Rightarrow> ext_error option"
  reply_Commit :: "trace \<Rightarrow> ext_error option"
  reply_ExecuteDBQuery :: "trace \<Rightarrow> placeholders \<Rightarrow> string \<Rightarrow> ext_error option"
  reply_PrepareContext :: "trace \<Rightarrow> string \<Rightarrow> ext_error option"
  reply_ExecContext :: "trace \<Rightarrow> string \<Rightarrow> ext_error option"
  reply_QuerySessions :: "trace \<Rightarrow> string \<Rightarrow> string list \<Rightarrow> ext_error + int Rows"
  reply_QueryMappings :: "trace \<Rightarrow> string \<Rightarrow> string list \<Rightarrow> ext_error + mapping_row Rows"
  reply_QueryRowScan :: "trace \<Rightarrow> string \<Rightarrow> string list \<Rightarrow> ext_error option"

text \<open>A deferred call runs when the function returns, whatever it returns.\<close>

definition deferred :: "event \<Rightarrow> 'a \<times> trace \<Rightarrow> 'a \<times> trace" where
  "deferred ev r = (fst r, snd r @ [ev])"

subsection \<open>Requests and responses (package newdbplugin)\<close>



record Statements =
  Commands :: "string list"

record UsernameConfig =
  DisplayName :: string
  RoleName :: string

record NewUserRequest =
  new_UsernameConfig :: UsernameConfig
  new_Statements :: Statements
  new_RollbackStatements :: Statements
  new_Password :: string
  new_Expiration :: time

record NewUserResponse =
  Username :: string

record DeleteUserRequest =
  del_Username :: string
  del_Statements :: Statements

record ChangePassword =
  NewPassword :: string
  cp_Statements :: Statements

record ChangeExpiration =
  NewExpiration :: time
  ce_Statements :: Statements

record UpdateUserRequest =
  upd_Username :: string
  upd_Password :: "ChangePassword option"
  upd_Expiration :: "ChangeExpiration option"

subsection \<open>Strings\<close>

text \<open>
  \<open>strings.TrimSpace\<close> on the bytes of a string: the white space of ASCII (tab, line
  feed, vertical tab, form feed, carriage return, space). White space that UTF-8 encodes
  in several bytes is outside this model.
\<close>

definition is_space :: "char \<Rightarrow> bool" where
  "is_space c = (c \<in> set [CHR 0x09, CHR 0x0A, CHR 0x0B, CHR 0x0C, CHR 0x0D, CHR 0x20])"

definition TrimSpace :: "string \<Rightarrow> string" where
  "TrimSpace s = rev (dropWhile is_space (rev (dropWhile is_space s)))"

text \<open>
  Modelled from the spec: \<open>strutil.ParseArbitraryStringSlice\<close> (package
  sdk/helper/strutil) is not among the sources. The spec's splitting rule is "split on
  \<open>;\<close>": the fragments between the occurrences of the separator, in order.
\<close>

fun split_on :: "char \<Rightarrow> string \<Rightarrow> string \<Rightarrow> string list" where
  "split_on sep acc [] = [rev acc]"
| "split_on sep acc (c # cs) =
     (if c = sep then rev acc # split_on sep [] cs else split_on sep (c # acc) cs)"

definition ParseArbitraryStringSlice :: "string \<Rightarrow> char \<Rightarrow> string list" where
  "ParseArbitraryStringSlice input sep = split_on sep [] input"

subsection \<open>Calls to the collaborators\<close>

definition getConnection :: "env \<Rightarrow> trace \<Rightarrow> ext_error option \<times> trace" where
  "getConnection d tr = (let r = reply_Connection d tr in (r, tr @ [EvConnection r]))"

definition GenerateUsername ::
  "env \<Rightarrow> string \<Rightarrow> nat \<Rightarrow> string \<Rightarrow> nat \<Rightarrow> nat \<Rightarrow> string \<Rightarrow> trace
    \<Rightarrow> (ext_error + string) \<times> trace" where
  "GenerateUsername d dn dl rn rl ml sep tr =
     (let r = reply_GenerateUsername d tr dn dl rn rl ml sep in (r, tr @ [EvGenerateUsername r]))"

definition BeginTx :: "env \<Rightarrow> trace \<Rightarrow> ext_error option \<times> trace" where
  "BeginTx d tr = (let r = reply_BeginTx d tr in (r, tr @ [EvBeginTx r]))"

definition ExecuteTxQuery ::
  "env \<Rightarrow> placeholders \<Rightarrow> string \<Rightarrow> trace \<Rightarrow> ext_error option \<times> trace" where
  "ExecuteTxQuery d m query tr =
     (let r = reply_ExecuteTxQuery d tr m query in (r, tr @ [EvExecuteTxQuery m query r]))"

definition Commit :: "env \<Rightarrow> trace \<Rightarrow> ext_error option \<times> trace" where
  "Commit d tr = (let r = reply_Commit d tr in (r, tr @ [EvCommit r]))"

definition ExecuteDBQuery ::
  "env \<Rightarrow> placeholders \<Rightarrow> string \<Rightarrow> trace \<Rightarrow> ext_error option \<times> trace" where
  "ExecuteDBQuery d m query tr =
     (let r = reply_ExecuteDBQuery d tr m query in (r, tr @ [EvExecuteDBQuery m query r]))"

subsection \<open>NewUser\<close>

text \<open>
  The two nested loops of \<open>NewUser\<close> (lines 124 to 141): each command is split at
  \<open>;\<close>, each fragment trimmed, an empty one skipped, the others executed in the
  transaction; the first failure returns.
\<close>

fun NewUser_queries ::
  "env \<Rightarrow> string \<Rightarrow> string \<Rightarrow> string \<Rightarrow> string list \<Rightarrow> trace \<Rightarrow> ext_error option \<times> trace" where
  "NewUser_queries d username password expirationStr [] tr = (None, tr)"
| "NewUser_queries d username password expirationStr (q # qs) tr =
     (let query = TrimSpace q in
      if length query = 0 then NewUser_queries d username password expirationStr qs tr
      else
        let m = [(''name'', username), (''password'', password), (''expiration'', expirationStr)] in
        case ExecuteTxQuery d m query tr of
          (Some err, tr') \<Rightarrow> (Some err, tr')
        | (None, tr') \<Rightarrow> NewUser_queries d username password expirationStr qs tr')"

fun NewUser_commands ::
  "env \<Rightarrow> string \<Rightarrow> string \<Rightarrow> string \<Rightarrow> string list \<Rightarrow> trace \<Rightarrow> ext_error option \<times> trace" where
  "NewUser_commands d username password expirationStr [] tr = (None, tr)"
| "NewUser_commands d username password expirationStr (stmt # stmts) tr =
     (case NewUser_queries d username password expirationStr
             (ParseArbitraryStringSlice stmt CHR '';'') tr of
        (Some err, tr') \<Rightarrow> (Some err, tr')
      | (None, tr') \<Rightarrow> NewUser_commands d username password expirationStr stmts tr')"

text \<open>Lines 123 to 151: the body after \<open>defer tx.Rollback()\<close>.\<close>

definition NewUser_tx ::
  "env \<Rightarrow> NewUserRequest \<Rightarrow> string \<Rightarrow> string \<Rightarrow> trace
    \<Rightarrow> (NewUserResponse \<times> error option) \<times> trace" where
  "NewUser_tx d req username expirationStr tr =
     (case NewUser_commands d username (new_Password req) expirationStr
             (Commands (new_Statements req)) tr of
        (Some err, tr') \<Rightarrow> ((\<lparr>Username = ''''\<rparr>, Some (External err)), tr')
      | (None, tr') \<Rightarrow>
          (case Commit d tr' of
             (Some err, tr'') \<Rightarrow> ((\<lparr>Username = ''''\<rparr>, Some (External err)), tr'')
           | (None, tr'') \<Rightarrow> ((\<lparr>Username = username\<rparr>, None), tr'')))"

text \<open>Lines 96 to 122: the body after \<open>defer m.Unlock()\<close>.\<close>

definition NewUser_locked ::
  "env \<Rightarrow> NewUserRequest \<Rightarrow> trace \<Rightarrow> (NewUserResponse \<times> error option) \<times> trace" where
  "NewUser_locked d req tr =
     (case getConnection d tr of
        (Some err, tr1) \<Rightarrow>
          ((\<lparr>Username = ''''\<rparr>, Some (Errorf ''unable to get connection: %w'' (External err))), tr1)
      | (None, tr1) \<Rightarrow>
          if length (Commands (new_Statements req)) = 0
          then ((\<lparr>Username = ''''\<rparr>, Some ErrEmptyCreationStatement), tr1)
          else
            (case GenerateUsername d
                    (DisplayName (new_UsernameConfig req)) 20
                    (RoleName (new_UsernameConfig req)) 20 128 ''-'' tr1 of
               (Inl err, tr2) \<Rightarrow> ((\<lparr>Username = ''''\<rparr>, Some (External err)), tr2)
             | (Inr username, tr2) \<Rightarrow>
                 let expirationStr = reply_Format d (new_Expiration req) ''2006-01-02 15:04:05-0700'' in
                 (case BeginTx d tr2 of
                    (Some err, tr3) \<Rightarrow> ((\<lparr>Username = ''''\<rparr>, Some (External err)), tr3)
                  | (None, tr3) \<Rightarrow>
                      deferred EvRollback (NewUser_tx d req username expirationStr tr3))))"

definition NewUser ::
  "env \<Rightarrow> NewUserRequest \<Rightarrow> trace \<Rightarrow> (NewUserResponse \<times> error option) \<times> trace" where
  "NewUser d req tr = deferred EvUnlock (NewUser_locked d req (tr @ [EvLock]))"

subsection \<open>Statement texts\<close>

text \<open>\<open>%d\<close> of \<open>fmt.Sprintf\<close>: an integer in decimal.\<close>

function decimal :: "nat \<Rightarrow> string" where
  "decimal n =
     (if n < 10 then [''0123456789'' ! n]
      else decimal (n div 10) @ [''0123456789'' ! (n mod 10)])"
  by pat_completeness auto
termination
  by (relation "measure id") auto

definition Sprintf_d :: "int \<Rightarrow> string" where
  "Sprintf_d i = (if i < 0 then CHR ''-'' # decimal (nat (- i)) else decimal (nat i))"

definition disableSQL :: "string \<Rightarrow> string" where
  "disableSQL username = ''ALTER LOGIN ['' @ username @ ''] DISABLE;''"

definition sessionSQL :: string where
  "sessionSQL = ''SELECT session_id FROM sys.dm_exec_sessions WHERE login_name = @p1;''"

definition killSQL :: "int \<Rightarrow> string" where
  "killSQL sessionID = ''KILL '' @ Sprintf_d sessionID @ '';''"

definition mappingsSQL :: string where
  "mappingsSQL = ''EXEC master.dbo.sp_msloginmappings @p1;''"

definition probeSQL :: string where
  "probeSQL = ''SELECT 1 FROM master.sys.server_principals where name = N''
     @ [CHR 0x27] @ ''$1'' @ [CHR 0x27]"

text \<open>The constants \<open>dropUserSQL\<close>, \<open>dropLoginSQL\<close> with their \<open>%s\<close> filled in.\<close>

definition dropUserSQL :: "string \<Rightarrow> string \<Rightarrow> string \<Rightarrow> string" where
  "dropUserSQL a b c =
     ''\<newline>USE ['' @ a @ '']\<newline>IF EXISTS\<newline>  (SELECT name\<newline>   FROM sys.database_principals\<newline>   WHERE name = N''
     @ [CHR 0x27] @ b @ [CHR 0x27] @ '')\<newline>BEGIN\<newline>  DROP USER ['' @ c @ '']\<newline>END\<newline>''"

definition dropLoginSQL :: "string \<Rightarrow> string \<Rightarrow> string" where
  "dropLoginSQL a b =
     ''\<newline>IF EXISTS\<newline>  (SELECT name\<newline>   FROM master.sys.server_principals\<newline>   WHERE name = N''
     @ [CHR 0x27] @ a @ [CHR 0x27] @ '')\<newline>BEGIN\<newline>  DROP LOGIN ['' @ b @ '']\<newline>END\<newline>''"

definition alterLoginSQL :: string where
  "alterLoginSQL =
     ''\<newline>ALTER LOGIN [{{username}}] WITH PASSWORD = '' @ [CHR 0x27] @ ''{{password}}'' @ [CHR 0x27]
     @ '' \<newline>''"

subsection \<open>Prepared statements and queries\<close>

definition PrepareContext :: "env \<Rightarrow> string \<Rightarrow> trace \<Rightarrow> ext_error option \<times> trace" where
  "PrepareContext d query tr =
     (let r = reply_PrepareContext d tr query in (r, tr @ [EvPrepareContext query r]))"

definition ExecContext :: "env \<Rightarrow> string \<Rightarrow> trace \<Rightarrow> ext_error option \<times> trace" where
  "ExecContext d query tr =
     (let r = reply_ExecContext d tr query in (r, tr @ [EvExecContext query r]))"

definition outcome :: "ext_error + 'a \<Rightarrow> ext_error option" where
  "outcome r = (case r of Inl err \<Rightarrow> Some err | Inr _ \<Rightarrow> None)"

definition QuerySessions ::
  "env \<Rightarrow> string \<Rightarrow> string list \<Rightarrow> trace \<Rightarrow> (ext_error + int Rows) \<times> trace" where
  "QuerySessions d query args tr =
     (let r = reply_QuerySessions d tr query args in (r, tr @ [EvQueryContext query args (outcome r)]))"

definition QueryMappings ::
  "env \<Rightarrow> string \<Rightarrow> string list \<Rightarrow> trace \<Rightarrow> (ext_error + mapping_row Rows) \<times> trace" where
  "QueryMappings d query args tr =
     (let r = reply_QueryMappings d tr query args in (r, tr @ [EvQueryContext query args (outcome r)]))"

definition QueryRowScan ::
  "env \<Rightarrow> string \<Rightarrow> string list \<Rightarrow> trace \<Rightarrow> ext_error option \<times> trace" where
  "QueryRowScan d query args tr =
     (let r = reply_QueryRowScan d tr query args in (r, tr @ [EvQueryRowScan query args r]))"

subsection \<open>revokeUserDefault\<close>

text \<open>Lines 225 to 232: one \<open>KILL\<close> statement for each session row; a failed \<open>Scan\<close> returns.\<close>

fun scan_sessions :: "(ext_error + int) list \<Rightarrow> string list \<Rightarrow> ext_error + string list" where
  "scan_sessions [] revokeStmts = Inr revokeStmts"
| "scan_sessions (Inl err # rest) revokeStmts = Inl err"
| "scan_sessions (Inr sessionID # rest) revokeStmts =
     scan_sessions rest (revokeStmts @ [killSQL sessionID])"

text \<open>
  Lines 251 to 261: one drop-user statement for each mapping row whose database name is
  not NULL; a failed \<open>Scan\<close> returns.
\<close>

fun scan_mappings ::
  "(ext_error + mapping_row) list \<Rightarrow> string \<Rightarrow> string list \<Rightarrow> ext_error + string list" where
  "scan_mappings [] username revokeStmts = Inr revokeStmts"
| "scan_mappings (Inl err # rest) username revokeStmts = Inl err"
| "scan_mappings (Inr row # rest) username revokeStmts =
     (case dbName row of
        None \<Rightarrow> scan_mappings rest username revokeStmts
      | Some db \<Rightarrow>
          scan_mappings rest username (revokeStmts @ [dropUserSQL db username username]))"

text \<open>Lines 265 to 270: every statement is executed; the last error is remembered.\<close>

fun exec_revokeStmts ::
  "env \<Rightarrow> string list \<Rightarrow> ext_error option \<Rightarrow> trace \<Rightarrow> ext_error option \<times> trace" where
  "exec_revokeStmts d [] lastStmtError tr = (lastStmtError, tr)"
| "exec_revokeStmts d (query # rest) lastStmtError tr =
     (case ExecuteDBQuery d [] query tr of
        (Some err, tr') \<Rightarrow> exec_revokeStmts d rest (Some err) tr'
      | (None, tr') \<Rightarrow> exec_revokeStmts d rest lastStmtError tr')"

text \<open>Lines 286 to 290, after the second \<open>defer stmt.Close()\<close>.\<close>

definition revoke_dropLogin :: "env \<Rightarrow> string \<Rightarrow> trace \<Rightarrow> error option \<times> trace" where
  "revoke_dropLogin d dropLogin tr =
     (case ExecContext d dropLogin tr of
        (Some err, tr') \<Rightarrow> (Some (External err), tr')
      | (None, tr') \<Rightarrow> (None, tr'))"

text \<open>Lines 251 to 285, after \<open>defer rows.Close()\<close>.\<close>

definition revoke_cleanup ::
  "env \<Rightarrow> string \<Rightarrow> string list \<Rightarrow> mapping_row Rows \<Rightarrow> trace \<Rightarrow> error option \<times> trace" where
  "revoke_cleanup d username revokeStmts rows tr =
     (case scan_mappings (scans rows) username revokeStmts of
        Inl err \<Rightarrow> (Some (External err), tr)
      | Inr revokeStmts' \<Rightarrow>
          (case exec_revokeStmts d revokeStmts' None tr of
             (lastStmtError, tr1) \<Rightarrow>
               let tr2 = tr1 @ [EvRowsErr mappingsSQL (Err rows)] in
               (case Err rows of
                  Some err \<Rightarrow>
                    (Some (Wrapf ''could not generate sql statements for all rows: {{err}}''
                             (External err)), tr2)
                | None \<Rightarrow>
                    (case lastStmtError of
                       Some err \<Rightarrow>
                         (Some (Wrapf ''could not perform all sql statements: {{err}}''
                                  (External err)), tr2)
                     | None \<Rightarrow>
                         let dropLogin = dropLoginSQL username username in
                         (case PrepareContext d dropLogin tr2 of
                            (Some err, tr3) \<Rightarrow> (Some (External err), tr3)
                          | (None, tr3) \<Rightarrow>
                              deferred (EvStmtClose dropLogin)
                                (revoke_dropLogin d dropLogin tr3))))))"

text \<open>Lines 245 to 249, after the first \<open>defer stmt.Close()\<close>.\<close>

definition revoke_mappings ::
  "env \<Rightarrow> string \<Rightarrow> string list \<Rightarrow> trace \<Rightarrow> error option \<times> trace" where
  "revoke_mappings d username revokeStmts tr =
     (case QueryMappings d mappingsSQL [username] tr of
        (Inl err, tr1) \<Rightarrow> (Some (External err), tr1)
      | (Inr rows, tr1) \<Rightarrow>
          deferred (EvRowsClose mappingsSQL) (revoke_cleanup d username revokeStmts rows tr1))"

text \<open>Lines 224 to 243, after \<open>defer sessionRows.Close()\<close>.\<close>

definition revoke_kills :: "env \<Rightarrow> string \<Rightarrow> int Rows \<Rightarrow> trace \<Rightarrow> error option \<times> trace" where
  "revoke_kills d username sessionRows tr =
     (case scan_sessions (scans sessionRows) [] of
        Inl err \<Rightarrow> (Some (External err), tr)
      | Inr revokeStmts \<Rightarrow>
          (case PrepareContext d mappingsSQL tr of
             (Some err, tr1) \<Rightarrow> (Some (External err), tr1)
           | (None, tr1) \<Rightarrow>
               deferred (EvStmtClose mappingsSQL) (revoke_mappings d username revokeStmts tr1)))"

text \<open>Lines 218 to 222, after \<open>defer sessionStmt.Close()\<close>.\<close>

definition revoke_sessions :: "env \<Rightarrow> string \<Rightarrow> trace \<Rightarrow> error option \<times> trace" where
  "revoke_sessions d username tr =
     (case QuerySessions d sessionSQL [username] tr of
        (Inl err, tr1) \<Rightarrow> (Some (External err), tr1)
      | (Inr sessionRows, tr1) \<Rightarrow>
          deferred (EvRowsClose sessionSQL) (revoke_kills d username sessionRows tr1))"

text \<open>Lines 203 to 216, after \<open>defer disableStmt.Close()\<close>.\<close>

definition revoke_disable :: "env \<Rightarrow> string \<Rightarrow> trace \<Rightarrow> error option \<times> trace" where
  "revoke_disable d username tr =
     (case ExecContext d (disableSQL username) tr of
        (Some err, tr1) \<Rightarrow> (Some (External err), tr1)
      | (None, tr1) \<Rightarrow>
          (case PrepareContext d sessionSQL tr1 of
             (Some err, tr2) \<Rightarrow> (Some (External err), tr2)
           | (None, tr2) \<Rightarrow>
               deferred (EvStmtClose sessionSQL) (revoke_sessions d username tr2)))"

definition revokeUserDefault :: "env \<Rightarrow> string \<Rightarrow> trace \<Rightarrow> error option \<times> trace" where
  "revokeUserDefault d username tr =
     (case getConnection d tr of
        (Some err, tr1) \<Rightarrow> (Some (External err), tr1)
      | (None, tr1) \<Rightarrow>
          (case PrepareContext d (disableSQL username) tr1 of
             (Some err, tr2) \<Rightarrow> (Some (External err), tr2)
           | (None, tr2) \<Rightarrow>
               deferred (EvStmtClose (disableSQL username)) (revoke_disable d username tr2)))"

subsection \<open>DeleteUser\<close>

text \<open>
  \<open>multierror.Append\<close> on the list of collected errors: an error that is itself a
  multierror is flattened into the list, any other is added at the end.
  \<open>ErrorOrNil\<close> is nil for the empty list.
\<close>

definition Append :: "error list \<Rightarrow> error \<Rightarrow> error list" where
  "Append merr err = (case err of MultiError es \<Rightarrow> merr @ es | _ \<Rightarrow> merr @ [err])"

definition ErrorOrNil :: "error list \<Rightarrow> error option" where
  "ErrorOrNil merr = (if length merr = 0 then None else Some (MultiError merr))"

text \<open>The two nested loops of lines 171 to 185.\<close>

fun DeleteUser_queries ::
  "env \<Rightarrow> string \<Rightarrow> string list \<Rightarrow> error list \<Rightarrow> trace \<Rightarrow> error list \<times> trace" where
  "DeleteUser_queries d username [] merr tr = (merr, tr)"
| "DeleteUser_queries d username (q # qs) merr tr =
     (let query = TrimSpace q in
      if length query = 0 then DeleteUser_queries d username qs merr tr
      else
        let m = [(''name'', username)] in
        case ExecuteDBQuery d m query tr of
          (Some err, tr') \<Rightarrow> DeleteUser_queries d username qs (Append merr (External err)) tr'
        | (None, tr') \<Rightarrow> DeleteUser_queries d username qs merr tr')"

fun DeleteUser_commands ::
  "env \<Rightarrow> string \<Rightarrow> string list \<Rightarrow> error list \<Rightarrow> trace \<Rightarrow> error list \<times> trace" where
  "DeleteUser_commands d username [] merr tr = (merr, tr)"
| "DeleteUser_commands d username (stmt # stmts) merr tr =
     (case DeleteUser_queries d username (ParseArbitraryStringSlice stmt CHR '';'') merr tr of
        (merr', tr') \<Rightarrow> DeleteUser_commands d username stmts merr' tr')"

definition DeleteUser :: "env \<Rightarrow> DeleteUserRequest \<Rightarrow> trace \<Rightarrow> error option \<times> trace" where
  "DeleteUser d req tr =
     (if length (Commands (del_Statements req)) = 0
      then revokeUserDefault d (del_Username req) tr
      else
        (case getConnection d tr of
           (Some err, tr1) \<Rightarrow> (Some (Errorf ''unable to get connection: %w'' (External err)), tr1)
         | (None, tr1) \<Rightarrow>
             (case DeleteUser_commands d (del_Username req) (Commands (del_Statements req)) [] tr1 of
                (merr, tr2) \<Rightarrow> (ErrorOrNil merr, tr2))))"

subsection \<open>UpdateUser\<close>

text \<open>The two nested loops of \<open>updateUserPass\<close> (lines 342 to 358).\<close>

fun updateUserPass_queries ::
  "env \<Rightarrow> string \<Rightarrow> string \<Rightarrow> string list \<Rightarrow> trace \<Rightarrow> error option \<times> trace" where
  "updateUserPass_queries d username password [] tr = (None, tr)"
| "updateUserPass_queries d username password (q # qs) tr =
     (let query = TrimSpace q in
      if length query = 0 then updateUserPass_queries d username password qs tr
      else
        let m = [(''name'', username), (''username'', username), (''password'', password)] in
        case ExecuteTxQuery d m query tr of
          (Some err, tr') \<Rightarrow> (Some (Errorf ''failed to execute query: %w'' (External err)), tr')
        | (None, tr') \<Rightarrow> updateUserPass_queries d username password qs tr')"

fun updateUserPass_commands ::
  "env \<Rightarrow> string \<Rightarrow> string \<Rightarrow> string list \<Rightarrow> trace \<Rightarrow> error option \<times> trace" where
  "updateUserPass_commands d username password [] tr = (None, tr)"
| "updateUserPass_commands d username password (stmt # stmts) tr =
     (case updateUserPass_queries d username password (ParseArbitraryStringSlice stmt CHR '';'') tr of
        (Some err, tr') \<Rightarrow> (Some err, tr')
      | (None, tr') \<Rightarrow> updateUserPass_commands d username password stmts tr')"

text \<open>Lines 342 to 364, after the deferred rollback.\<close>

definition updateUserPass_tx ::
  "env \<Rightarrow> string \<Rightarrow> string \<Rightarrow> string list \<Rightarrow> trace \<Rightarrow> error option \<times> trace" where
  "updateUserPass_tx d username password stmts tr =
     (case updateUserPass_commands d username password stmts tr of
        (Some err, tr') \<Rightarrow> (Some err, tr')
      | (None, tr') \<Rightarrow>
          (case Commit d tr' of
             (Some err, tr'') \<Rightarrow>
               (Some (Errorf ''failed to commit transaction: %w'' (External err)), tr'')
           | (None, tr'') \<Rightarrow> (None, tr'')))"

text \<open>Lines 320 to 340, after \<open>defer m.Unlock()\<close>.\<close>

definition updateUserPass_locked ::
  "env \<Rightarrow> string \<Rightarrow> string \<Rightarrow> string list \<Rightarrow> trace \<Rightarrow> error option \<times> trace" where
  "updateUserPass_locked d username password stmts tr =
     (case getConnection d tr of
        (Some err, tr1) \<Rightarrow> (Some (External err), tr1)
      | (None, tr1) \<Rightarrow>
          (case QueryRowScan d probeSQL [username] tr1 of
             (err, tr2) \<Rightarrow>
               if err \<noteq> None \<and> err \<noteq> Some ErrNoRows then (map_option External err, tr2)
               else
                 (case BeginTx d tr2 of
                    (Some err', tr3) \<Rightarrow> (Some (External err'), tr3)
                  | (None, tr3) \<Rightarrow>
                      deferred EvRollback (updateUserPass_tx d username password stmts tr3))))"

definition updateUserPass ::
  "env \<Rightarrow> string \<Rightarrow> ChangePassword \<Rightarrow> trace \<Rightarrow> error option \<times> trace" where
  "updateUserPass d username changePass tr =
     (let stmts = (if length (Commands (cp_Statements changePass)) = 0 then [alterLoginSQL]
                   else Commands (cp_Statements changePass));
          password = NewPassword changePass
      in if username = '''' \<or> password = ''''
         then (Some (ErrorNew ''must provide both username and password''), tr)
         else deferred EvUnlock (updateUserPass_locked d username password stmts (tr @ [EvLock])))"

definition UpdateUser :: "env \<Rightarrow> UpdateUserRequest \<Rightarrow> trace \<Rightarrow> error option \<times> trace" where
  "UpdateUser d req tr =
     (if upd_Password req = None \<and> upd_Expiration req = None
      then (Some (ErrorNew ''no changes requested''), tr)
      else
        (case upd_Password req of
           Some changePass \<Rightarrow> updateUserPass d (upd_Username req) changePass tr
         | None \<Rightarrow> (None, tr)))"

subsection \<open>Initialize and Type\<close>


definition msSQLTypeName :: string where
  "msSQLTypeName = ''mssql''"


subsection \<open>New\<close>

text \<open>
  The fields of the embedded \<open>connutil.SQLConnectionProducer\<close> that the file names. The
  producer fills \<open>Password\<close> from the configuration; \<open>new\<close> leaves it empty.
\<close>

record SQLConnectionProducer =
  Type :: string
  Password :: string

record MSSQL =
  SQLConnectionProducer :: SQLConnectionProducer

definition new :: MSSQL where
  "new = \<lparr>SQLConnectionProducer = \<lparr>Type = msSQLTypeName, Password = ''''\<rparr>\<rparr>"

text \<open>Lines 65 to 69: a map of one entry, as the list of its entries.\<close>

definition secretValues :: "MSSQL \<Rightarrow> (string \<times> string) list" where
  "secretValues m = [(Password (SQLConnectionProducer m), ''[password]'')]"



text \<open>
  Modelled from the spec: \<open>newdbplugin.NewDatabaseErrorSanitizerMiddleware\<close> (package
  sdk/database/newdbplugin) is not among the sources. The spec has the wrapper apply a
  secret-value map to the text of every error before it leaves: every occurrence of a
  key in the text is replaced by the key's value, from left to right (\<open>ReplaceAll\<close>), one
  entry of the map after the other (\<open>sanitize\<close>); an empty key replaces nothing. The map
  is asked for when the error is there, so it is the map of the plugin's state \<open>m\<close> at
  that moment; \<open>message\<close> is the text of an error (its method \<open>Error\<close>).
\<close>

function ReplaceAll :: "string \<Rightarrow> string \<Rightarrow> string \<Rightarrow> string" where
  "ReplaceAll [] old subst = []"
| "ReplaceAll (c # s) old subst =
     (if old \<noteq> [] \<and> prefix old (c # s)
      then subst @ ReplaceAll (drop (length old) (c # s)) old subst
      else c # ReplaceAll s old subst)"
  by pat_completeness auto
termination
  by (relation "measure (\<lambda>(s, old, subst). length s)") auto

definition sanitize :: "(string \<times> string) list \<Rightarrow> string \<Rightarrow> string" where
  "sanitize secrets text = fold (\<lambda>(find, replace) s. ReplaceAll s find replace) secrets text"




section \<open>Shapes of traces and concrete environments\<close>

text \<open>
  A batch of statements run in a transaction: every statement but the last succeeded, and
  the batch's result is the last statement's.
\<close>

fun tx_batch :: "ext_error option \<Rightarrow> event list \<Rightarrow> bool" where
  "tx_batch r [] = (r = None)"
| "tx_batch r (EvExecuteTxQuery m q None # evs) = tx_batch r evs"
| "tx_batch r [EvExecuteTxQuery m q (Some e)] = (r = Some e)"
| "tx_batch r evs = False"

text \<open>
  Concrete environments and requests for the runs that the theorems below are evaluated
  on: one in which every collaborator succeeds and result sets are empty, and variants
  of it.
\<close>

definition all_succeed :: env where
  "all_succeed =
     \<lparr>reply_Init = (\<lambda>tr conf verify. Inr conf),
      reply_Connection = (\<lambda>tr. None),
      reply_GenerateUsername = (\<lambda>tr dn dl rn rl ml sep. Inr (''v'' @ sep @ dn @ sep @ rn)),
      reply_Format = (\<lambda>t layout. ''2030-01-01 00:00:00+0000''),
      reply_BeginTx = (\<lambda>tr. None),
      reply_ExecuteTxQuery = (\<lambda>tr m q. None),
      reply_Commit = (\<lambda>tr. None),
      reply_ExecuteDBQuery = (\<lambda>tr m q. None),
      reply_PrepareContext = (\<lambda>tr q. None),
      reply_ExecContext = (\<lambda>tr q. None),
      reply_QuerySessions = (\<lambda>tr q args. Inr \<lparr>scans = [], Err = None\<rparr>),
      reply_QueryMappings = (\<lambda>tr q args. Inr \<lparr>scans = [], Err = None\<rparr>),
      reply_QueryRowScan = (\<lambda>tr q args. None)\<rparr>"

definition new_request :: "string list \<Rightarrow> NewUserRequest" where
  "new_request cmds =
     \<lparr>new_UsernameConfig = \<lparr>DisplayName = ''app'', RoleName = ''svc''\<rparr>,
      new_Statements = \<lparr>Commands = cmds\<rparr>,
      new_RollbackStatements = \<lparr>Commands = []\<rparr>,
      new_Password = ''P@ss1'',
      new_Expiration = 0\<rparr>"

definition exec_fails_on :: "string \<Rightarrow> env" where
  "exec_fails_on bad =
     all_succeed\<lparr>reply_ExecuteTxQuery := (\<lambda>tr m q. if q = bad then Some (Fault ''rejected'') else None),
                 reply_ExecuteDBQuery := (\<lambda>tr m q. if q = bad then Some (Fault ''rejected'') else None)\<rparr>"

definition connection_down :: env where
  "connection_down = all_succeed\<lparr>reply_Connection := (\<lambda>tr. Some (Fault ''connection refused''))\<rparr>"

text \<open>
  What \<open>updateUserPass\<close> works with once its arguments are accepted: the placeholder map
  of every statement, and the statements (the caller's, or the default one).
\<close>

definition rotate_placeholders :: "string \<Rightarrow> string \<Rightarrow> placeholders" where
  "rotate_placeholders username password =
     [(''name'', username), (''username'', username), (''password'', password)]"

definition rotate_stmts :: "ChangePassword \<Rightarrow> string list" where
  "rotate_stmts changePass =
     (if Commands (cp_Statements changePass) = [] then [alterLoginSQL]
      else Commands (cp_Statements changePass))"

definition update_request ::
  "ChangePassword option \<Rightarrow> ChangeExpiration option \<Rightarrow> UpdateUserRequest" where
  "update_request pw ex = \<lparr>upd_Username = ''v-app-svc'', upd_Password = pw, upd_Expiration = ex\<rparr>"

definition new_password :: "string list \<Rightarrow> ChangePassword" where
  "new_password cmds = \<lparr>NewPassword = ''N3w'', cp_Statements = \<lparr>Commands = cmds\<rparr>\<rparr>"

definition new_expiration :: "time \<Rightarrow> ChangeExpiration" where
  "new_expiration t = \<lparr>NewExpiration = t, ce_Statements = \<lparr>Commands = []\<rparr>\<rparr>"

text \<open>
  The statements of a command, in the spec's words: split on \<open>;\<close>, trim each fragment,
  discard the empty ones. The loops of the source are compared with it below.
\<close>

definition statements :: "string \<Rightarrow> string list" where
  "statements stmt =
     filter (\<lambda>q. q \<noteq> []) (map TrimSpace (ParseArbitraryStringSlice stmt CHR '';''))"

text \<open>
  A best-effort batch: every statement is executed on the plain handle, whatever the
  earlier ones returned; the results are kept in order. \<open>failures\<close> are the errors among
  the results.
\<close>

fun run_each :: "env \<Rightarrow> placeholders \<Rightarrow> string list \<Rightarrow> trace \<Rightarrow> ext_error option list \<times> trace" where
  "run_each d m [] tr = ([], tr)"
| "run_each d m (q # qs) tr =
     (case ExecuteDBQuery d m q tr of
        (r, tr') \<Rightarrow> (case run_each d m qs tr' of (rs, tr'') \<Rightarrow> (r # rs, tr'')))"

fun failures :: "'a option list \<Rightarrow> 'a list" where
  "failures [] = []"
| "failures (None # rs) = failures rs"
| "failures (Some e # rs) = e # failures rs"

definition delete_request :: "string list \<Rightarrow> DeleteUserRequest" where
  "delete_request cmds = \<lparr>del_Username = ''v-app-svc'', del_Statements = \<lparr>Commands = cmds\<rparr>\<rparr>"



text \<open>
  The statements executed on the plain handle in a trace, in order, each with its result.
\<close>

fun executed :: "event list \<Rightarrow> (string \<times> ext_error option) list" where
  "executed [] = []"
| "executed (EvExecuteDBQuery m q r # evs) = (q, r) # executed evs"
| "executed (ev # evs) = executed evs"



text \<open>The error that the loop of \<open>revokeUserDefault\<close> remembers: the last one.\<close>

definition last_failure :: "ext_error option \<Rightarrow> ext_error option list \<Rightarrow> ext_error option" where
  "last_failure lastStmtError rs =
     (if failures rs = [] then lastStmtError else Some (last (failures rs)))"

text \<open>
  Environments for the default revoke: the login has one session, number 52, and the
  mapping rows given; on top of that, a rejected \<open>KILL\<close>, a mapping row that fails to
  scan after a good one, and a mapping result set cut short by an error.
\<close>

definition one_session :: "int Rows" where
  "one_session = \<lparr>scans = [Inr 52], Err = None\<rparr>"

definition mapped_to :: "string \<Rightarrow> mapping_row" where
  "mapped_to db =
     \<lparr>loginName = Some ''v-app-svc'', dbName = Some db, qUsername = Some ''v-app-svc'',
      aliasName = None\<rparr>"

definition login_in_use :: "mapping_row Rows \<Rightarrow> env" where
  "login_in_use rows =
     all_succeed\<lparr>reply_QuerySessions := (\<lambda>tr q args. Inr one_session),
                 reply_QueryMappings := (\<lambda>tr q args. Inr rows)\<rparr>"


definition scan_fails :: env where
  "scan_fails =
     login_in_use \<lparr>scans = [Inr (mapped_to ''db1''), Inl (Fault ''scan failed'')], Err = None\<rparr>"

definition rows_cut_short :: env where
  "rows_cut_short =
     login_in_use \<lparr>scans = [Inr (mapped_to ''db1'')], Err = Some (Fault ''connection lost'')\<rparr>"

text \<open>
  For the errors that leave the plugin: the plugin once its producer has read a
  configuration with the given password; a server that refuses the login with a message
  that quotes the connection string; and a text for errors, the message of the fault at
  the root of the error.
\<close>

definition configured :: "string \<Rightarrow> MSSQL" where
  "configured password =
     new\<lparr>SQLConnectionProducer := (SQLConnectionProducer new)\<lparr>Password := password\<rparr>\<rparr>"



section \<open>The runs of NewUser\<close>

lemmas call_defs = getConnection_def GenerateUsername_def BeginTx_def ExecuteTxQuery_def
  Commit_def ExecuteDBQuery_def PrepareContext_def ExecContext_def QuerySessions_def
  QueryMappings_def QueryRowScan_def outcome_def deferred_def Let_def

lemmas NewUser_defs = NewUser_def NewUser_locked_def NewUser_tx_def
  ParseArbitraryStringSlice_def TrimSpace_def is_space_def

lemma tx_batch_append:
  "tx_batch r0 evs \<Longrightarrow> r0 = None \<Longrightarrow> tx_batch r evs' \<Longrightarrow> tx_batch r (evs @ evs')"
  by (induction r0 evs rule: tx_batch.induct) auto

lemma tx_batch_failed:
  "tx_batch r evs \<Longrightarrow> EvExecuteTxQuery m q (Some e) \<in> set evs
    \<Longrightarrow> r = Some e \<and> (\<exists>pre. evs = pre @ [EvExecuteTxQuery m q (Some e)])"
  by (induction r evs rule: tx_batch.induct) (auto simp: Cons_eq_append_conv)

lemma tx_batch_None:
  "tx_batch r0 evs \<Longrightarrow> r0 = None \<Longrightarrow> EvExecuteTxQuery m q r \<in> set evs \<Longrightarrow> r = None"
  by (induction r0 evs rule: tx_batch.induct) auto

lemma tx_batch_only:
  "tx_batch r evs \<Longrightarrow> ev \<in> set evs \<Longrightarrow> \<exists>m q x. ev = EvExecuteTxQuery m q x"
  by (induction r evs rule: tx_batch.induct) auto

lemma NewUser_queries_trace:
  "NewUser_queries d u p x qs tr = (r, tr') \<Longrightarrow> \<exists>evs. tr' = tr @ evs \<and> tx_batch r evs"
proof (induction qs arbitrary: tr)
  case Nil
  then show ?case by auto
next
  case (Cons q qs)
  show ?case
  proof (cases "length (TrimSpace q) = 0")
    case True
    with Cons show ?thesis by simp
  next
    case False
    let ?m = "[(''name'', u), (''password'', p), (''expiration'', x)]"
    let ?a = "reply_ExecuteTxQuery d tr ?m (TrimSpace q)"
    show ?thesis
    proof (cases ?a)
      case None
      with False Cons.prems have
        "NewUser_queries d u p x qs (tr @ [EvExecuteTxQuery ?m (TrimSpace q) None]) = (r, tr')"
        by (simp add: ExecuteTxQuery_def Let_def)
      from Cons.IH[OF this] obtain evs where
        "tr' = (tr @ [EvExecuteTxQuery ?m (TrimSpace q) None]) @ evs" "tx_batch r evs" by blast
      then show ?thesis by auto
    next
      case (Some e)
      with False Cons.prems have "r = Some e" "tr' = tr @ [EvExecuteTxQuery ?m (TrimSpace q) (Some e)]"
        by (auto simp: ExecuteTxQuery_def Let_def)
      then show ?thesis by simp
    qed
  qed
qed

lemma NewUser_commands_trace:
  "NewUser_commands d u p x cs tr = (r, tr') \<Longrightarrow> \<exists>evs. tr' = tr @ evs \<and> tx_batch r evs"
proof (induction cs arbitrary: tr)
  case Nil
  then show ?case by auto
next
  case (Cons c cs)
  obtain r1 tr1 where q: "NewUser_queries d u p x (ParseArbitraryStringSlice c CHR '';'') tr = (r1, tr1)"
    by fastforce
  from NewUser_queries_trace[OF q] obtain evs1 where e1: "tr1 = tr @ evs1" "tx_batch r1 evs1" by blast
  show ?case
  proof (cases r1)
    case None
    with q Cons.prems have "NewUser_commands d u p x cs tr1 = (r, tr')" by simp
    from Cons.IH[OF this] obtain evs2 where "tr' = tr1 @ evs2" "tx_batch r evs2" by blast
    with e1 None show ?thesis by (auto intro: tx_batch_append[OF _ refl])
  next
    case (Some e)
    with q Cons.prems e1 show ?thesis by auto
  qed
qed

lemma NewUser_tx_cases:
  obtains
    (stmt_failed) b e where
      "NewUser_tx d req u x tr = ((\<lparr>Username = ''''\<rparr>, Some (External e)), tr @ b)"
      "tx_batch (Some e) b"
  | (commit_failed) b e where
      "NewUser_tx d req u x tr = ((\<lparr>Username = ''''\<rparr>, Some (External e)), tr @ b @ [EvCommit (Some e)])"
      "tx_batch None b"
  | (committed) b where
      "NewUser_tx d req u x tr = ((\<lparr>Username = u\<rparr>, None), tr @ b @ [EvCommit None])"
      "tx_batch None b"
proof -
  obtain r tr1 where c: "NewUser_commands d u (new_Password req) x (Commands (new_Statements req)) tr = (r, tr1)"
    by fastforce
  from NewUser_commands_trace[OF c] obtain b where b: "tr1 = tr @ b" "tx_batch r b" by blast
  show thesis
  proof (cases r)
    case (Some e)
    with c b have "NewUser_tx d req u x tr = ((\<lparr>Username = ''''\<rparr>, Some (External e)), tr @ b)"
      by (simp add: NewUser_tx_def)
    with Some b show thesis by (auto intro: stmt_failed)
  next
    case None
    show thesis
    proof (cases "reply_Commit d tr1")
      case (Some e)
      with None c b have "NewUser_tx d req u x tr = ((\<lparr>Username = ''''\<rparr>, Some (External e)), tr @ b @ [EvCommit (Some e)])"
        by (simp add: NewUser_tx_def Commit_def Let_def)
      with None b show thesis by (auto intro: commit_failed)
    next
      case n: None
      with None c b have "NewUser_tx d req u x tr = ((\<lparr>Username = u\<rparr>, None), tr @ b @ [EvCommit None])"
        by (simp add: NewUser_tx_def Commit_def Let_def)
      with None b show thesis by (auto intro: committed)
    qed
  qed
qed

lemma NewUser_cases:
  obtains
    (no_connection) e where
      "NewUser d req tr = ((\<lparr>Username = ''''\<rparr>, Some (Errorf ''unable to get connection: %w'' (External e))),
          tr @ [EvLock, EvConnection (Some e), EvUnlock])"
  | (no_statements) 
      "Commands (new_Statements req) = []"
      "NewUser d req tr = ((\<lparr>Username = ''''\<rparr>, Some ErrEmptyCreationStatement),
          tr @ [EvLock, EvConnection None, EvUnlock])"
  | (no_username) e where
      "NewUser d req tr = ((\<lparr>Username = ''''\<rparr>, Some (External e)),
          tr @ [EvLock, EvConnection None, EvGenerateUsername (Inl e), EvUnlock])"
  | (no_transaction) u e where
      "NewUser d req tr = ((\<lparr>Username = ''''\<rparr>, Some (External e)),
          tr @ [EvLock, EvConnection None, EvGenerateUsername (Inr u), EvBeginTx (Some e), EvUnlock])"
  | (stmt_failed) u b e where
      "NewUser d req tr = ((\<lparr>Username = ''''\<rparr>, Some (External e)),
          tr @ [EvLock, EvConnection None, EvGenerateUsername (Inr u), EvBeginTx None] @ b
             @ [EvRollback, EvUnlock])"
      "tx_batch (Some e) b"
  | (commit_failed) u b e where
      "NewUser d req tr = ((\<lparr>Username = ''''\<rparr>, Some (External e)),
          tr @ [EvLock, EvConnection None, EvGenerateUsername (Inr u), EvBeginTx None] @ b
             @ [EvCommit (Some e), EvRollback, EvUnlock])"
      "tx_batch None b"
  | (committed) u b where
      "NewUser d req tr = ((\<lparr>Username = u\<rparr>, None),
          tr @ [EvLock, EvConnection None, EvGenerateUsername (Inr u), EvBeginTx None] @ b
             @ [EvCommit None, EvRollback, EvUnlock])"
      "tx_batch None b"
proof (cases "reply_Connection d (tr @ [EvLock])")
  case (Some e)
  then have "NewUser d req tr = ((\<lparr>Username = ''''\<rparr>, Some (Errorf ''unable to get connection: %w'' (External e))),
          tr @ [EvLock, EvConnection (Some e), EvUnlock])"
    by (simp add: NewUser_def NewUser_locked_def getConnection_def deferred_def Let_def)
  then show thesis by (rule no_connection)
next
  case conn: None
  let ?t1 = "tr @ [EvLock, EvConnection None]"
  show thesis
  proof (cases "Commands (new_Statements req) = []")
    case True
    with conn have "NewUser d req tr = ((\<lparr>Username = ''''\<rparr>, Some ErrEmptyCreationStatement),
          tr @ [EvLock, EvConnection None, EvUnlock])"
      by (simp add: NewUser_def NewUser_locked_def getConnection_def deferred_def Let_def)
    with True show thesis by (rule no_statements)
  next
    case ne: False
    let ?g = "reply_GenerateUsername d ?t1 (DisplayName (new_UsernameConfig req)) 20
                    (RoleName (new_UsernameConfig req)) 20 128 ''-''"
    show thesis
    proof (cases ?g)
      case (Inl e)
      with conn ne have "NewUser d req tr = ((\<lparr>Username = ''''\<rparr>, Some (External e)),
          tr @ [EvLock, EvConnection None, EvGenerateUsername (Inl e), EvUnlock])"
        by (simp add: NewUser_def NewUser_locked_def getConnection_def deferred_def GenerateUsername_def Let_def)
      then show thesis by (rule no_username)
    next
      case (Inr u)
      let ?t2 = "tr @ [EvLock, EvConnection None, EvGenerateUsername (Inr u)]"
      show thesis
      proof (cases "reply_BeginTx d ?t2")
        case (Some e)
        with conn ne Inr have "NewUser d req tr = ((\<lparr>Username = ''''\<rparr>, Some (External e)),
          tr @ [EvLock, EvConnection None, EvGenerateUsername (Inr u), EvBeginTx (Some e), EvUnlock])"
          by (simp add: NewUser_def NewUser_locked_def getConnection_def deferred_def
              GenerateUsername_def BeginTx_def Let_def)
        then show thesis by (rule no_transaction)
      next
        case None
        let ?t3 = "tr @ [EvLock, EvConnection None, EvGenerateUsername (Inr u), EvBeginTx None]"
        let ?x = "reply_Format d (new_Expiration req) ''2006-01-02 15:04:05-0700''"
        from conn ne Inr None have run: "NewUser d req tr =
            deferred EvUnlock (deferred EvRollback (NewUser_tx d req u ?x ?t3))"
          by (simp add: NewUser_def NewUser_locked_def getConnection_def
              GenerateUsername_def BeginTx_def Let_def)
        show thesis
        proof (cases rule: NewUser_tx_cases[of d req u ?x ?t3])
          case (stmt_failed b e)
          with run show thesis by (intro that(5)[of e u b]) (simp_all add: deferred_def)
        next
          case (commit_failed b e)
          with run show thesis by (intro that(6)[of e u b]) (simp_all add: deferred_def)
        next
          case (committed b)
          with run show thesis by (intro that(7)[of u b]) (simp_all add: deferred_def)
        qed
      qed
    qed
  qed
qed

lemma NewUser_run_rejected: "NewUser (exec_fails_on ''B'') (new_request [''A; B ;C'']) [] =
  ((\<lparr>Username = ''''\<rparr>, Some (External (Fault ''rejected''))),
   [EvLock, EvConnection None, EvGenerateUsername (Inr ''v-app-svc''), EvBeginTx None,
    EvExecuteTxQuery [(''name'', ''v-app-svc''), (''password'', ''P@ss1''),
       (''expiration'', ''2030-01-01 00:00:00+0000'')] ''A'' None,
    EvExecuteTxQuery [(''name'', ''v-app-svc''), (''password'', ''P@ss1''),
       (''expiration'', ''2030-01-01 00:00:00+0000'')] ''B'' (Some (Fault ''rejected'')),
    EvRollback, EvUnlock])"
  by (simp add: NewUser_defs call_defs all_succeed_def exec_fails_on_def new_request_def)


lemma NewUser_run_accepted: "NewUser all_succeed (new_request [''A; B ;C'']) [] =
  ((\<lparr>Username = ''v-app-svc''\<rparr>, None),
   [EvLock, EvConnection None, EvGenerateUsername (Inr ''v-app-svc''), EvBeginTx None,
    EvExecuteTxQuery [(''name'', ''v-app-svc''), (''password'', ''P@ss1''),
       (''expiration'', ''2030-01-01 00:00:00+0000'')] ''A'' None,
    EvExecuteTxQuery [(''name'', ''v-app-svc''), (''password'', ''P@ss1''),
       (''expiration'', ''2030-01-01 00:00:00+0000'')] ''B'' None,
    EvExecuteTxQuery [(''name'', ''v-app-svc''), (''password'', ''P@ss1''),
       (''expiration'', ''2030-01-01 00:00:00+0000'')] ''C'' None,
    EvCommit None, EvRollback, EvUnlock])"
  by (simp add: NewUser_defs call_defs all_succeed_def new_request_def)

section \<open>The runs of updateUserPass\<close>

lemma updateUserPass_queries_trace:
  "updateUserPass_queries d u p qs tr = (r, tr') \<Longrightarrow>
     \<exists>evs x. tr' = tr @ evs \<and> tx_batch x evs \<and>
       r = map_option (\<lambda>e. Errorf ''failed to execute query: %w'' (External e)) x"
proof (induction qs arbitrary: tr)
  case Nil
  then have "tr' = tr @ []" "tx_batch None []" "r = map_option (\<lambda>e. Errorf ''failed to execute query: %w'' (External e)) None"
    by auto
  then show ?case by blast
next
  case (Cons q qs)
  show ?case
  proof (cases "length (TrimSpace q) = 0")
    case True
    with Cons show ?thesis by simp
  next
    case False
    let ?m = "[(''name'', u), (''username'', u), (''password'', p)]"
    let ?a = "reply_ExecuteTxQuery d tr ?m (TrimSpace q)"
    show ?thesis
    proof (cases ?a)
      case None
      with False Cons.prems have
        "updateUserPass_queries d u p qs (tr @ [EvExecuteTxQuery ?m (TrimSpace q) None]) = (r, tr')"
        by (simp add: ExecuteTxQuery_def Let_def)
      from Cons.IH[OF this] obtain evs x where
        "tr' = (tr @ [EvExecuteTxQuery ?m (TrimSpace q) None]) @ evs" "tx_batch x evs"
        "r = map_option (\<lambda>e. Errorf ''failed to execute query: %w'' (External e)) x" by blast
      then have "tr' = tr @ (EvExecuteTxQuery ?m (TrimSpace q) None # evs)"
        "tx_batch x (EvExecuteTxQuery ?m (TrimSpace q) None # evs)"
        "r = map_option (\<lambda>e. Errorf ''failed to execute query: %w'' (External e)) x" by auto
      then show ?thesis by blast
    next
      case (Some e)
      with False Cons.prems have "r = map_option (\<lambda>e. Errorf ''failed to execute query: %w'' (External e)) (Some e)"
        "tr' = tr @ [EvExecuteTxQuery ?m (TrimSpace q) (Some e)]"
        "tx_batch (Some e) [EvExecuteTxQuery ?m (TrimSpace q) (Some e)]"
        by (auto simp: ExecuteTxQuery_def Let_def)
      then show ?thesis by blast
    qed
  qed
qed

lemma updateUserPass_commands_trace:
  "updateUserPass_commands d u p cs tr = (r, tr') \<Longrightarrow>
     \<exists>evs x. tr' = tr @ evs \<and> tx_batch x evs \<and>
       r = map_option (\<lambda>e. Errorf ''failed to execute query: %w'' (External e)) x"
proof (induction cs arbitrary: tr)
  case Nil
  then have "tr' = tr @ []" "tx_batch None []" "r = map_option (\<lambda>e. Errorf ''failed to execute query: %w'' (External e)) None"
    by auto
  then show ?case by blast
next
  case (Cons c cs)
  obtain r1 tr1 where q: "updateUserPass_queries d u p (ParseArbitraryStringSlice c CHR '';'') tr = (r1, tr1)"
    by fastforce
  from updateUserPass_queries_trace[OF q] obtain evs1 x1 where e1: "tr1 = tr @ evs1" "tx_batch x1 evs1"
    "r1 = map_option (\<lambda>e. Errorf ''failed to execute query: %w'' (External e)) x1" by blast
  show ?case
  proof (cases x1)
    case None
    with q e1 Cons.prems have "updateUserPass_commands d u p cs tr1 = (r, tr')" by simp
    from Cons.IH[OF this] obtain evs2 x2 where "tr' = tr1 @ evs2" "tx_batch x2 evs2"
      "r = map_option (\<lambda>e. Errorf ''failed to execute query: %w'' (External e)) x2" by blast
    with e1 None have "tr' = tr @ (evs1 @ evs2)" "tx_batch x2 (evs1 @ evs2)"
      "r = map_option (\<lambda>e. Errorf ''failed to execute query: %w'' (External e)) x2"
      by (auto intro: tx_batch_append[OF _ refl])
    then show ?thesis by blast
  next
    case (Some e)
    with q Cons.prems e1 have "tr' = tr @ evs1" "tx_batch x1 evs1"
       "r = map_option (\<lambda>e. Errorf ''failed to execute query: %w'' (External e)) x1" by auto
    then show ?thesis by blast
  qed
qed

lemma updateUserPass_queries_maps:
  "updateUserPass_queries d u p qs tr = (r, tr') \<Longrightarrow> EvExecuteTxQuery m q x \<in> set tr' \<Longrightarrow>
     EvExecuteTxQuery m q x \<in> set tr \<or> m = rotate_placeholders u p"
proof (induction qs arbitrary: tr)
  case Nil
  then show ?case by auto
next
  case (Cons a qs)
  show ?case
  proof (cases "length (TrimSpace a) = 0")
    case True
    with Cons show ?thesis by simp
  next
    case False
    let ?m = "[(''name'', u), (''username'', u), (''password'', p)]"
    show ?thesis
    proof (cases "reply_ExecuteTxQuery d tr ?m (TrimSpace a)")
      case None
      with False Cons.prems(1) have
        "updateUserPass_queries d u p qs (tr @ [EvExecuteTxQuery ?m (TrimSpace a) None]) = (r, tr')"
        by (simp add: ExecuteTxQuery_def Let_def)
      from Cons.IH[OF this Cons.prems(2)] show ?thesis
        by (auto simp: rotate_placeholders_def)
    next
      case (Some e)
      with False Cons.prems(1) have "tr' = tr @ [EvExecuteTxQuery ?m (TrimSpace a) (Some e)]"
        by (auto simp: ExecuteTxQuery_def Let_def)
      with Cons.prems(2) show ?thesis by (auto simp: rotate_placeholders_def)
    qed
  qed
qed

lemma updateUserPass_commands_maps:
  "updateUserPass_commands d u p cs tr = (r, tr') \<Longrightarrow> EvExecuteTxQuery m q x \<in> set tr' \<Longrightarrow>
     EvExecuteTxQuery m q x \<in> set tr \<or> m = rotate_placeholders u p"
proof (induction cs arbitrary: tr)
  case Nil
  then show ?case by auto
next
  case (Cons c cs)
  obtain r1 tr1 where q: "updateUserPass_queries d u p (ParseArbitraryStringSlice c CHR '';'') tr = (r1, tr1)"
    by fastforce
  show ?case
  proof (cases r1)
    case None
    with q Cons.prems have "updateUserPass_commands d u p cs tr1 = (r, tr')" by simp
    from Cons.IH[OF this Cons.prems(2)] updateUserPass_queries_maps[OF q] show ?thesis by blast
  next
    case (Some e)
    with q Cons.prems have "tr' = tr1" by simp
    with updateUserPass_queries_maps[OF q] Cons.prems(2) show ?thesis by blast
  qed
qed

lemma updateUserPass_tx_cases:
  obtains
    (stmt_failed) b e where
      "updateUserPass_tx d u p stmts tr =
         (Some (Errorf ''failed to execute query: %w'' (External e)), tr @ b)"
      "tx_batch (Some e) b"
  | (commit_failed) b e where
      "updateUserPass_tx d u p stmts tr =
         (Some (Errorf ''failed to commit transaction: %w'' (External e)), tr @ b @ [EvCommit (Some e)])"
      "tx_batch None b"
  | (committed) b where
      "updateUserPass_tx d u p stmts tr = (None, tr @ b @ [EvCommit None])"
      "tx_batch None b"
proof -
  obtain r tr1 where c: "updateUserPass_commands d u p stmts tr = (r, tr1)"
    by fastforce
  from updateUserPass_commands_trace[OF c] obtain b x where b: "tr1 = tr @ b" "tx_batch x b"
    "r = map_option (\<lambda>e. Errorf ''failed to execute query: %w'' (External e)) x" by blast
  show thesis
  proof (cases x)
    case (Some e)
    with c b have "updateUserPass_tx d u p stmts tr =
         (Some (Errorf ''failed to execute query: %w'' (External e)), tr @ b)"
      by (simp add: updateUserPass_tx_def)
    with Some b show thesis by (auto intro: stmt_failed)
  next
    case None
    show thesis
    proof (cases "reply_Commit d tr1")
      case (Some e)
      with None c b have "updateUserPass_tx d u p stmts tr =
         (Some (Errorf ''failed to commit transaction: %w'' (External e)), tr @ b @ [EvCommit (Some e)])"
        by (simp add: updateUserPass_tx_def Commit_def Let_def)
      with None b show thesis by (auto intro: commit_failed)
    next
      case n: None
      with None c b have "updateUserPass_tx d u p stmts tr = (None, tr @ b @ [EvCommit None])"
        by (simp add: updateUserPass_tx_def Commit_def Let_def)
      with None b show thesis by (auto intro: committed)
    qed
  qed
qed

lemma updateUserPass_cases:
  obtains
    (bad_arguments)
      "u = '''' \<or> NewPassword cp = ''''"
      "updateUserPass d u cp tr = (Some (ErrorNew ''must provide both username and password''), tr)"
  | (no_connection) e where
      "updateUserPass d u cp tr = (Some (External e), tr @ [EvLock, EvConnection (Some e), EvUnlock])"
  | (probe_failed) e where
      "e \<noteq> ErrNoRows"
      "updateUserPass d u cp tr = (Some (External e),
          tr @ [EvLock, EvConnection None, EvQueryRowScan probeSQL [u] (Some e), EvUnlock])"
  | (no_transaction) pr e where
      "updateUserPass d u cp tr = (Some (External e),
          tr @ [EvLock, EvConnection None, EvQueryRowScan probeSQL [u] pr, EvBeginTx (Some e), EvUnlock])"
  | (in_transaction) pr where
      "updateUserPass d u cp tr =
         deferred EvUnlock (deferred EvRollback
           (updateUserPass_tx d u (NewPassword cp) (rotate_stmts cp)
              (tr @ [EvLock, EvConnection None, EvQueryRowScan probeSQL [u] pr, EvBeginTx None])))"
proof (cases "u = '''' \<or> NewPassword cp = ''''")
  case True
  then have "updateUserPass d u cp tr = (Some (ErrorNew ''must provide both username and password''), tr)"
    by (auto simp: updateUserPass_def Let_def)
  with True show thesis by (rule bad_arguments)
next
  case args: False
  then have run: "updateUserPass d u cp tr =
      deferred EvUnlock (updateUserPass_locked d u (NewPassword cp) (rotate_stmts cp) (tr @ [EvLock]))"
    by (auto simp: updateUserPass_def Let_def rotate_stmts_def)
  show thesis
  proof (cases "reply_Connection d (tr @ [EvLock])")
    case (Some e)
    with run have "updateUserPass d u cp tr = (Some (External e), tr @ [EvLock, EvConnection (Some e), EvUnlock])"
      by (simp add: updateUserPass_locked_def getConnection_def deferred_def Let_def)
    then show thesis by (rule no_connection)
  next
    case conn: None
    let ?t1 = "tr @ [EvLock, EvConnection None]"
    let ?pr = "reply_QueryRowScan d ?t1 probeSQL [u]"
    show thesis
    proof (cases "?pr \<noteq> None \<and> ?pr \<noteq> Some ErrNoRows")
      case True
      then obtain e where e: "?pr = Some e" "e \<noteq> ErrNoRows" by auto
      with run conn have "updateUserPass d u cp tr = (Some (External e),
          tr @ [EvLock, EvConnection None, EvQueryRowScan probeSQL [u] (Some e), EvUnlock])"
        by (simp add: updateUserPass_locked_def getConnection_def QueryRowScan_def deferred_def Let_def)
      with e(2) show thesis by (rule probe_failed)
    next
      case pr: False
      let ?t2 = "tr @ [EvLock, EvConnection None, EvQueryRowScan probeSQL [u] ?pr]"
      show thesis
      proof (cases "reply_BeginTx d ?t2")
        case (Some e)
        with run conn pr have "updateUserPass d u cp tr = (Some (External e),
          tr @ [EvLock, EvConnection None, EvQueryRowScan probeSQL [u] ?pr, EvBeginTx (Some e), EvUnlock])"
          by (auto simp: updateUserPass_locked_def getConnection_def QueryRowScan_def BeginTx_def
              deferred_def Let_def)
        then show thesis by (rule no_transaction)
      next
        case None
        with run conn pr have "updateUserPass d u cp tr =
         deferred EvUnlock (deferred EvRollback
           (updateUserPass_tx d u (NewPassword cp) (rotate_stmts cp)
              (tr @ [EvLock, EvConnection None, EvQueryRowScan probeSQL [u] ?pr, EvBeginTx None])))"
          by (auto simp: updateUserPass_locked_def getConnection_def QueryRowScan_def BeginTx_def
              Let_def)
        then show thesis by (rule in_transaction)
      qed
    qed
  qed
qed

lemma updateUserPass_tx_maps:
  assumes "EvExecuteTxQuery m q x \<in> set (snd (updateUserPass_tx d u p stmts tr))"
  shows "EvExecuteTxQuery m q x \<in> set tr \<or> m = rotate_placeholders u p"
proof -
  obtain r tr1 where c: "updateUserPass_commands d u p stmts tr = (r, tr1)"
    by fastforce
  have "set (snd (updateUserPass_tx d u p stmts tr)) \<subseteq> set tr1 \<union> {EvCommit (reply_Commit d tr1)}"
    using c by (auto simp: updateUserPass_tx_def Commit_def Let_def split: option.splits)
  with assms have "EvExecuteTxQuery m q x \<in> set tr1" by auto
  from updateUserPass_commands_maps[OF c this] show ?thesis .
qed

lemma updateUserPass_maps:
  assumes "EvExecuteTxQuery m q x \<in> set (snd (updateUserPass d u cp tr))"
  shows "EvExecuteTxQuery m q x \<in> set tr \<or> m = rotate_placeholders u (NewPassword cp)"
proof (cases rule: updateUserPass_cases[of u cp d tr])
  case bad_arguments
  with assms show ?thesis by simp
next
  case (no_connection e)
  with assms show ?thesis by simp
next
  case (probe_failed e)
  with assms show ?thesis by simp
next
  case (no_transaction pr e)
  with assms show ?thesis by simp
next
  case (in_transaction pr)
  let ?t = "tr @ [EvLock, EvConnection None, EvQueryRowScan probeSQL [u] pr, EvBeginTx None]"
  from assms in_transaction have
    "EvExecuteTxQuery m q x \<in> set (snd (updateUserPass_tx d u (NewPassword cp) (rotate_stmts cp) ?t))"
    by (simp add: deferred_def)
  from updateUserPass_tx_maps[OF this] show ?thesis by simp
qed

lemma UpdateUser_run_both:
  "UpdateUser all_succeed (update_request (Some (new_password [])) (Some (new_expiration t))) [] =
    (None,
     [EvLock, EvConnection None, EvQueryRowScan probeSQL [''v-app-svc''] None, EvBeginTx None,
      EvExecuteTxQuery [(''name'', ''v-app-svc''), (''username'', ''v-app-svc''), (''password'', ''N3w'')]
        (''ALTER LOGIN [{{username}}] WITH PASSWORD = '' @ [CHR 0x27] @ ''{{password}}'' @ [CHR 0x27])
        None,
      EvCommit None, EvRollback, EvUnlock])"
  by (simp add: UpdateUser_def updateUserPass_def updateUserPass_locked_def updateUserPass_tx_def
      alterLoginSQL_def ParseArbitraryStringSlice_def TrimSpace_def is_space_def call_defs
      all_succeed_def update_request_def new_password_def new_expiration_def)


section \<open>The runs of DeleteUser\<close>

lemma failures_append: "failures (xs @ ys) = failures xs @ failures ys"
  by (induction xs rule: failures.induct) auto

lemma failures_Nil: "failures rs = [] \<longleftrightarrow> (\<forall>r\<in>set rs. r = None)"
  by (induction rs rule: failures.induct) auto

lemma run_each_trace:
  "run_each d m qs tr = (rs, tr') \<Longrightarrow>
     length rs = length qs \<and> tr' = tr @ map2 (EvExecuteDBQuery m) qs rs"
proof (induction qs arbitrary: tr rs tr')
  case Nil
  then show ?case by simp
next
  case (Cons q qs)
  let ?r = "reply_ExecuteDBQuery d tr m q"
  obtain rs1 tr1 where r1: "run_each d m qs (tr @ [EvExecuteDBQuery m q ?r]) = (rs1, tr1)"
    by fastforce
  with Cons.prems have eq: "rs = ?r # rs1" "tr' = tr1"
    by (auto simp: ExecuteDBQuery_def Let_def)
  from Cons.IH[OF r1] eq show ?case by simp
qed

lemma run_each_append:
  "run_each d m (qs @ qs') tr =
     (case run_each d m qs tr of
        (rs, tr') \<Rightarrow> (case run_each d m qs' tr' of (rs', tr'') \<Rightarrow> (rs @ rs', tr'')))"
  by (induction qs arbitrary: tr) (auto split: prod.splits)

lemma DeleteUser_queries_run:
  "DeleteUser_queries d u frs merr tr =
     (case run_each d [(''name'', u)] (filter (\<lambda>q. q \<noteq> []) (map TrimSpace frs)) tr of
        (rs, tr') \<Rightarrow> (merr @ map External (failures rs), tr'))"
proof (induction frs arbitrary: merr tr)
  case Nil
  then show ?case by simp
next
  case (Cons q frs)
  show ?case
  proof (cases "TrimSpace q = []")
    case True
    with Cons show ?thesis by simp
  next
    case False
    show ?thesis
    proof (cases "reply_ExecuteDBQuery d tr [(''name'', u)] (TrimSpace q)")
      case None
      with False Cons show ?thesis
        by (simp add: ExecuteDBQuery_def Let_def split: prod.splits)
    next
      case (Some e)
      with False Cons show ?thesis
        by (simp add: ExecuteDBQuery_def Let_def Append_def split: prod.splits)
    qed
  qed
qed

lemma DeleteUser_commands_run:
  "DeleteUser_commands d u cmds merr tr =
     (case run_each d [(''name'', u)] (concat (map statements cmds)) tr of
        (rs, tr') \<Rightarrow> (merr @ map External (failures rs), tr'))"
proof (induction cmds arbitrary: merr tr)
  case Nil
  then show ?case by simp
next
  case (Cons c cmds)
  show ?case
    by (simp add: DeleteUser_queries_run Cons.IH run_each_append statements_def failures_append
        split: prod.splits)
qed

lemma DeleteUser_run_best_effort:
  "DeleteUser (exec_fails_on ''S1'') (delete_request [''S1; S2'']) [] =
     (Some (MultiError [External (Fault ''rejected'')]),
      [EvConnection None,
       EvExecuteDBQuery [(''name'', ''v-app-svc'')] ''S1'' (Some (Fault ''rejected'')),
       EvExecuteDBQuery [(''name'', ''v-app-svc'')] ''S2'' None])"
  by (simp add: DeleteUser_def ParseArbitraryStringSlice_def TrimSpace_def is_space_def call_defs
      Append_def ErrorOrNil_def exec_fails_on_def all_succeed_def delete_request_def)

lemma statements_S1_S2: "statements ''S1; S2'' = [''S1'', ''S2'']"
  by (simp add: statements_def ParseArbitraryStringSlice_def TrimSpace_def is_space_def)

lemma two_results:
  assumes "length rs = length [x, y]"
    and "[a, EvExecuteDBQuery m x r1, EvExecuteDBQuery m y r2] = [] @ a # map2 (EvExecuteDBQuery m) [x, y] rs"
  shows "rs = [r1, r2]"
proof -
  from assms(1) obtain p q where "rs = [p, q]"
    by (cases rs; cases "tl rs") auto
  with assms(2) show ?thesis by simp
qed


section \<open>Splitting and trimming\<close>














section \<open>The default revoke\<close>







lemma exec_revokeStmts_run:
  "exec_revokeStmts d stmts lastStmtError tr =
     (case run_each d [] stmts tr of (rs, tr') \<Rightarrow> (last_failure lastStmtError rs, tr'))"
proof (induction stmts arbitrary: lastStmtError tr)
  case Nil
  then show ?case by (simp add: last_failure_def)
next
  case (Cons q stmts)
  show ?case
  proof (cases "reply_ExecuteDBQuery d tr [] q")
    case None
    then show ?thesis
      by (auto simp: ExecuteDBQuery_def Let_def Cons.IH last_failure_def split: prod.splits)
  next
    case (Some e)
    then show ?thesis
      by (auto simp: ExecuteDBQuery_def Let_def Cons.IH last_failure_def split: prod.splits)
  qed
qed


lemma scan_mappings_drops:
  "scan_mappings rows u stmts = Inr stmts' \<Longrightarrow>
     \<exists>dbs. stmts' = stmts @ map (\<lambda>db. dropUserSQL db u u) dbs"
proof (induction rows u stmts rule: scan_mappings.induct)
  case (1 username revokeStmts)
  then have "stmts' = revokeStmts @ map (\<lambda>db. dropUserSQL db username username) []" by simp
  then show ?case by blast
next
  case (2 err rest username revokeStmts)
  then show ?case by simp
next
  case (3 row rest username revokeStmts)
  show ?case
  proof (cases "dbName row")
    case None
    with 3 show ?thesis by simp
  next
    case (Some db)
    with 3 obtain dbs where
      "stmts' = (revokeStmts @ [dropUserSQL db username username]) @
         map (\<lambda>db. dropUserSQL db username username) dbs" by auto
    then have "stmts' = revokeStmts @ map (\<lambda>db. dropUserSQL db username username) (db # dbs)" by simp
    then show ?thesis by blast
  qed
qed





lemma revoke_cleanup_cases:
  obtains
    (scan_failed) e where
      "scan_mappings (scans rows) u stmts = Inl e"
      "revoke_cleanup d u stmts rows tr = (Some (External e), tr)"
  | (rows_error) stmts' rs e where
      "scan_mappings (scans rows) u stmts = Inr stmts'" "length rs = length stmts'"
      "Err rows = Some e"
      "revoke_cleanup d u stmts rows tr =
         (Some (Wrapf ''could not generate sql statements for all rows: {{err}}'' (External e)),
          tr @ map2 (EvExecuteDBQuery []) stmts' rs @ [EvRowsErr mappingsSQL (Some e)])"
  | (stmt_error) stmts' rs where
      "scan_mappings (scans rows) u stmts = Inr stmts'" "length rs = length stmts'"
      "Err rows = None" "failures rs \<noteq> []"
      "revoke_cleanup d u stmts rows tr =
         (Some (Wrapf ''could not perform all sql statements: {{err}}'' (External (last (failures rs)))),
          tr @ map2 (EvExecuteDBQuery []) stmts' rs @ [EvRowsErr mappingsSQL None])"
  | (prepare_failed) stmts' rs e where
      "scan_mappings (scans rows) u stmts = Inr stmts'" "length rs = length stmts'"
      "Err rows = None" "failures rs = []"
      "revoke_cleanup d u stmts rows tr =
         (Some (External e),
          tr @ map2 (EvExecuteDBQuery []) stmts' rs @
            [EvRowsErr mappingsSQL None, EvPrepareContext (dropLoginSQL u u) (Some e)])"
  | (drop_issued) stmts' rs r where
      "scan_mappings (scans rows) u stmts = Inr stmts'" "length rs = length stmts'"
      "Err rows = None" "failures rs = []"
      "revoke_cleanup d u stmts rows tr =
         (map_option External r,
          tr @ map2 (EvExecuteDBQuery []) stmts' rs @
            [EvRowsErr mappingsSQL None, EvPrepareContext (dropLoginSQL u u) None,
             EvExecContext (dropLoginSQL u u) r, EvStmtClose (dropLoginSQL u u)])"
proof (cases "scan_mappings (scans rows) u stmts")
  case (Inl e)
  then have "revoke_cleanup d u stmts rows tr = (Some (External e), tr)"
    by (simp add: revoke_cleanup_def)
  with Inl show thesis by (rule scan_failed)
next
  case (Inr stmts')
  obtain rs tr1 where run: "run_each d [] stmts' tr = (rs, tr1)" by fastforce
  from run_each_trace[OF run] have len: "length rs = length stmts'"
    and tr1: "tr1 = tr @ map2 (EvExecuteDBQuery []) stmts' rs" by blast+
  have ex: "exec_revokeStmts d stmts' None tr = (last_failure None rs, tr1)"
    by (simp add: exec_revokeStmts_run run)
  show thesis
  proof (cases "Err rows")
    case (Some e)
    with Inr ex tr1 have "revoke_cleanup d u stmts rows tr =
         (Some (Wrapf ''could not generate sql statements for all rows: {{err}}'' (External e)),
          tr @ map2 (EvExecuteDBQuery []) stmts' rs @ [EvRowsErr mappingsSQL (Some e)])"
      by (simp add: revoke_cleanup_def Let_def)
    with Inr len Some show thesis by (rule rows_error)
  next
    case None
    show thesis
    proof (cases "failures rs = []")
      case False
      with Inr ex tr1 None have "revoke_cleanup d u stmts rows tr =
         (Some (Wrapf ''could not perform all sql statements: {{err}}'' (External (last (failures rs)))),
          tr @ map2 (EvExecuteDBQuery []) stmts' rs @ [EvRowsErr mappingsSQL None])"
        by (simp add: revoke_cleanup_def Let_def last_failure_def)
      with Inr len None False show thesis by (rule stmt_error)
    next
      case True
      let ?t2 = "tr1 @ [EvRowsErr mappingsSQL None]"
      let ?dl = "dropLoginSQL u u"
      show thesis
      proof (cases "reply_PrepareContext d ?t2 ?dl")
        case (Some e)
        with Inr ex tr1 None True have "revoke_cleanup d u stmts rows tr =
         (Some (External e),
          tr @ map2 (EvExecuteDBQuery []) stmts' rs @
            [EvRowsErr mappingsSQL None, EvPrepareContext ?dl (Some e)])"
          by (simp add: revoke_cleanup_def Let_def last_failure_def PrepareContext_def)
        with Inr len None True show thesis by (rule prepare_failed)
      next
        case p: None
        let ?t3 = "?t2 @ [EvPrepareContext ?dl None]"
        let ?r = "reply_ExecContext d ?t3 ?dl"
        from Inr ex tr1 None True p have "revoke_cleanup d u stmts rows tr =
         (map_option External ?r,
          tr @ map2 (EvExecuteDBQuery []) stmts' rs @
            [EvRowsErr mappingsSQL None, EvPrepareContext ?dl None,
             EvExecContext ?dl ?r, EvStmtClose ?dl])"
          by (cases ?r)
            (simp_all add: revoke_cleanup_def Let_def last_failure_def PrepareContext_def
              revoke_dropLogin_def ExecContext_def deferred_def)
        with Inr len None True show thesis by (rule drop_issued)
      qed
    qed
  qed
qed












lemmas revoke_defs = revokeUserDefault_def revoke_disable_def revoke_sessions_def
  revoke_kills_def revoke_mappings_def revoke_cleanup_def revoke_dropLogin_def

lemmas revoke_envs = all_succeed_def login_in_use_def one_session_def mapped_to_def


lemma revokeUserDefault_run_scan_fails:
  "revokeUserDefault scan_fails ''v-app-svc'' [] =
     (Some (External (Fault ''scan failed'')),
      [EvConnection None,
       EvPrepareContext (disableSQL ''v-app-svc'') None,
       EvExecContext (disableSQL ''v-app-svc'') None,
       EvPrepareContext sessionSQL None,
       EvQueryContext sessionSQL [''v-app-svc''] None,
       EvPrepareContext mappingsSQL None,
       EvQueryContext mappingsSQL [''v-app-svc''] None,
       EvRowsClose mappingsSQL,
       EvStmtClose mappingsSQL,
       EvRowsClose sessionSQL,
       EvStmtClose sessionSQL,
       EvStmtClose (disableSQL ''v-app-svc'')])"
  by (simp add: revoke_defs call_defs revoke_envs scan_fails_def)

lemma revoke_kills_run_rows_cut_short:
  "revoke_kills rows_cut_short ''v-app-svc'' one_session [] =
     (Some (Wrapf ''could not generate sql statements for all rows: {{err}}''
              (External (Fault ''connection lost''))),
      [EvPrepareContext mappingsSQL None,
       EvQueryContext mappingsSQL [''v-app-svc''] None,
       EvExecuteDBQuery [] (killSQL 52) None,
       EvExecuteDBQuery [] (dropUserSQL ''db1'' ''v-app-svc'' ''v-app-svc'') None,
       EvRowsErr mappingsSQL (Some (Fault ''connection lost'')),
       EvRowsClose mappingsSQL,
       EvStmtClose mappingsSQL])"
  by (simp add: revoke_defs call_defs revoke_envs rows_cut_short_def)

lemma revoke_cleanup_attempts:
  assumes "scan_mappings (scans rows) u stmts = Inr stmts'"
  shows "\<exists>rs rest. length rs = length stmts' \<and>
           snd (revoke_cleanup d u stmts rows tr) =
             tr @ map2 (EvExecuteDBQuery []) stmts' rs @ EvRowsErr mappingsSQL (Err rows) # rest \<and>
           (\<forall>e. Err rows = Some e \<longrightarrow> rest = [] \<and>
              fst (revoke_cleanup d u stmts rows tr) =
                Some (Wrapf ''could not generate sql statements for all rows: {{err}}'' (External e)))"
proof (cases rule: revoke_cleanup_cases[of rows u stmts d tr])
  case (scan_failed e)
  with assms show ?thesis by simp
next
  case (rows_error s rs e)
  with assms have s: "s = stmts'" by simp
  show ?thesis
    apply (rule exI[of _ rs])
    apply (rule exI[of _ "[]"])
    using rows_error s by simp
next
  case (stmt_error s rs)
  with assms have s: "s = stmts'" by simp
  show ?thesis
    apply (rule exI[of _ rs])
    apply (rule exI[of _ "[]"])
    using stmt_error s by simp
next
  case (prepare_failed s rs e)
  with assms have s: "s = stmts'" by simp
  show ?thesis
    apply (rule exI[of _ rs])
    apply (rule exI[of _ "[EvPrepareContext (dropLoginSQL u u) (Some e)]"])
    using prepare_failed s by simp
next
  case (drop_issued s rs r)
  with assms have s: "s = stmts'" by simp
  show ?thesis
    apply (rule exI[of _ rs])
    apply (rule exI[of _ "[EvPrepareContext (dropLoginSQL u u) None,
             EvExecContext (dropLoginSQL u u) r, EvStmtClose (dropLoginSQL u u)]"])
    using drop_issued s by simp
qed

section \<open>The sanitized errors\<close>






lemma sanitize_fragment_of_marker:
  "sanitize (secretValues (configured ''pass'')) ''bad pass'' = ''bad [password]'' \<and>
   sublist ''pass'' ''bad [password]''"
proof -
  have "''bad [password]'' = ''bad [''  @ ''pass'' @ ''word]''" by simp
  then have "sublist ''pass'' ''bad [password]''" by (simp only: sublist_appendI)
  moreover have "sanitize (secretValues (configured ''pass'')) ''bad pass'' = ''bad [password]''"
    by (simp add: sanitize_def secretValues_def configured_def new_def)
  ultimately show ?thesis by simp
qed

section \<open>Claims\<close>

subsection \<open>C1: NewUser with no creation statement\<close>

text \<open>
  C1, as stated, fails: \<open>NewUser\<close> asks the connection producer for the connection before
  it looks at the statements. With a producer that fails, a request with no creation
  statement gets the wrapped connection error, not \<open>ErrEmptyCreationStatement\<close>; with a
  producer that succeeds, the trace of the call holds the call to the producer.
\<close>

theorem NewUser_empty_commands_counterexample:
  "snd (fst (NewUser connection_down (new_request []) [])) \<noteq> Some ErrEmptyCreationStatement \<and>
   snd (NewUser connection_down (new_request []) []) =
     [EvLock, EvConnection (Some (Fault ''connection refused'')), EvUnlock] \<and>
   snd (NewUser all_succeed (new_request []) []) = [EvLock, EvConnection None, EvUnlock]"
  by (simp add: NewUser_defs call_defs all_succeed_def connection_down_def new_request_def)

text \<open>
  C1, amended: for every request whose list of creation statements is empty, \<open>NewUser\<close>
  takes the lock and asks for the connection; when that fails it returns the wrapped
  connection error, otherwise \<open>ErrEmptyCreationStatement\<close>. Either way the response has no
  username and the call to the connection producer is the only one made: no username is
  generated, no transaction is opened, no statement is executed.
\<close>

theorem NewUser_empty_commands:
  assumes "Commands (new_Statements req) = []"
  shows "NewUser d req tr =
     (case reply_Connection d (tr @ [EvLock]) of
        Some err \<Rightarrow>
          ((\<lparr>Username = ''''\<rparr>, Some (Errorf ''unable to get connection: %w'' (External err))),
           tr @ [EvLock, EvConnection (Some err), EvUnlock])
      | None \<Rightarrow>
          ((\<lparr>Username = ''''\<rparr>, Some ErrEmptyCreationStatement),
           tr @ [EvLock, EvConnection None, EvUnlock]))"
  using assms
  by (simp add: NewUser_def NewUser_locked_def getConnection_def deferred_def Let_def
      split: option.splits)

text \<open>The amended C1 on two runs: the producer succeeds, the producer fails.\<close>

theorem NewUser_empty_commands_witness:
  "Commands (new_Statements (new_request [])) = [] \<and>
   NewUser all_succeed (new_request []) [] =
     ((\<lparr>Username = ''''\<rparr>, Some ErrEmptyCreationStatement), [EvLock, EvConnection None, EvUnlock]) \<and>
   NewUser connection_down (new_request []) [] =
     ((\<lparr>Username = ''''\<rparr>,
       Some (Errorf ''unable to get connection: %w'' (External (Fault ''connection refused'')))),
      [EvLock, EvConnection (Some (Fault ''connection refused'')), EvUnlock])"
proof -
  have c: "Commands (new_Statements (new_request [])) = []"
    by (simp add: new_request_def)
  show ?thesis
    using c NewUser_empty_commands[OF c, of all_succeed "[]"]
      NewUser_empty_commands[OF c, of connection_down "[]"]
    by (simp add: all_succeed_def connection_down_def)
qed

subsection \<open>C2: a failed statement rolls the creation back\<close>

text \<open>
  C2: in every run of \<open>NewUser\<close>, if the execution of a statement of the batch fails,
  then that statement's error is what \<open>NewUser\<close> returns, the response has no username,
  the failed execution is followed by the rollback and the unlock and by nothing else,
  and no commit was issued. If the commit was issued and succeeded, then \<open>NewUser\<close>
  returns no error, every statement executed had succeeded, and the username returned
  is the one that the username generator produced.
\<close>

theorem NewUser_statement_failure_rolls_back:
  "\<exists>evs. snd (NewUser d req tr) = tr @ evs \<and>
     (\<forall>m q e. EvExecuteTxQuery m q (Some e) \<in> set evs \<longrightarrow>
        snd (fst (NewUser d req tr)) = Some (External e) \<and>
        Username (fst (fst (NewUser d req tr))) = '''' \<and>
        (\<exists>pre. evs = pre @ [EvExecuteTxQuery m q (Some e), EvRollback, EvUnlock]) \<and>
        (\<forall>r. EvCommit r \<notin> set evs)) \<and>
     (EvCommit None \<in> set evs \<longrightarrow>
        snd (fst (NewUser d req tr)) = None \<and>
        (\<forall>m q r. EvExecuteTxQuery m q r \<in> set evs \<longrightarrow> r = None) \<and>
        EvGenerateUsername (Inr (Username (fst (fst (NewUser d req tr))))) \<in> set evs \<and>
        (\<forall>g. EvGenerateUsername g \<in> set evs \<longrightarrow> g = Inr (Username (fst (fst (NewUser d req tr))))))"
proof (cases rule: NewUser_cases[of d req tr])
  case (no_connection e)
  then show ?thesis by auto
next
  case no_statements
  then show ?thesis by auto
next
  case (no_username e)
  then show ?thesis by auto
next
  case (no_transaction u e)
  then show ?thesis by auto
next
  case (stmt_failed u b e)
  let ?evs = "[EvLock, EvConnection None, EvGenerateUsername (Inr u), EvBeginTx None] @ b
             @ [EvRollback, EvUnlock]"
  have only: "\<And>ev. ev \<in> set b \<Longrightarrow> \<exists>m q x. ev = EvExecuteTxQuery m q x"
    using tx_batch_only[OF stmt_failed(2)] by blast
  have nocommit: "\<And>r. EvCommit r \<notin> set b" using only by blast
  have fail: "\<And>m q e'. EvExecuteTxQuery m q (Some e') \<in> set b \<Longrightarrow>
      e' = e \<and> (\<exists>pre. b = pre @ [EvExecuteTxQuery m q (Some e')])"
    using tx_batch_failed[OF stmt_failed(2)] by blast
  have "snd (NewUser d req tr) = tr @ ?evs" using stmt_failed(1) by simp
  moreover have "\<forall>m q e'. EvExecuteTxQuery m q (Some e') \<in> set ?evs \<longrightarrow>
        snd (fst (NewUser d req tr)) = Some (External e') \<and>
        Username (fst (fst (NewUser d req tr))) = '''' \<and>
        (\<exists>pre. ?evs = pre @ [EvExecuteTxQuery m q (Some e'), EvRollback, EvUnlock]) \<and>
        (\<forall>r. EvCommit r \<notin> set ?evs)"
  proof (intro allI impI)
    fix m q e'
    assume "EvExecuteTxQuery m q (Some e') \<in> set ?evs"
    then have inb: "EvExecuteTxQuery m q (Some e') \<in> set b" by simp
    from fail[OF inb] obtain pre where e: "e' = e" and b: "b = pre @ [EvExecuteTxQuery m q (Some e')]"
      by blast
    have "?evs = ([EvLock, EvConnection None, EvGenerateUsername (Inr u), EvBeginTx None] @ pre)
        @ [EvExecuteTxQuery m q (Some e'), EvRollback, EvUnlock]"
      using b by simp
    then have "\<exists>pre'. ?evs = pre' @ [EvExecuteTxQuery m q (Some e'), EvRollback, EvUnlock]"
      by blast
    with e stmt_failed(1) nocommit show "snd (fst (NewUser d req tr)) = Some (External e') \<and>
        Username (fst (fst (NewUser d req tr))) = '''' \<and>
        (\<exists>pre. ?evs = pre @ [EvExecuteTxQuery m q (Some e'), EvRollback, EvUnlock]) \<and>
        (\<forall>r. EvCommit r \<notin> set ?evs)"
      by simp
  qed
  moreover have "EvCommit None \<notin> set ?evs" using nocommit by simp
  ultimately show ?thesis by blast
next
  case (commit_failed u b e)
  have only: "\<And>ev. ev \<in> set b \<Longrightarrow> \<exists>m q x. ev = EvExecuteTxQuery m q x"
    using tx_batch_only[OF commit_failed(2)] by blast
  have ok: "\<And>m q r. EvExecuteTxQuery m q r \<in> set b \<Longrightarrow> r = None"
    using tx_batch_None[OF commit_failed(2) refl] by blast
  have nocommit: "\<And>r. EvCommit r \<notin> set b" using only by blast
  let ?evs = "[EvLock, EvConnection None, EvGenerateUsername (Inr u), EvBeginTx None] @ b
             @ [EvCommit (Some e), EvRollback, EvUnlock]"
  have "snd (NewUser d req tr) = tr @ ?evs" using commit_failed(1) by simp
  moreover have "\<forall>m q e'. EvExecuteTxQuery m q (Some e') \<notin> set ?evs"
    using ok by fastforce
  moreover have "EvCommit None \<notin> set ?evs" using nocommit by simp
  ultimately show ?thesis by blast
next
  case (committed u b)
  have only: "\<And>ev. ev \<in> set b \<Longrightarrow> \<exists>m q x. ev = EvExecuteTxQuery m q x"
    using tx_batch_only[OF committed(2)] by blast
  have ok: "\<And>m q r. EvExecuteTxQuery m q r \<in> set b \<Longrightarrow> r = None"
    using tx_batch_None[OF committed(2) refl] by blast
  have nogen: "\<And>g. EvGenerateUsername g \<notin> set b" using only by blast
  let ?evs = "[EvLock, EvConnection None, EvGenerateUsername (Inr u), EvBeginTx None] @ b
             @ [EvCommit None, EvRollback, EvUnlock]"
  have "snd (NewUser d req tr) = tr @ ?evs" using committed(1) by simp
  moreover have "\<forall>m q e'. EvExecuteTxQuery m q (Some e') \<notin> set ?evs"
    using ok by fastforce
  moreover have "snd (fst (NewUser d req tr)) = None" "Username (fst (fst (NewUser d req tr))) = u"
    using committed(1) by simp_all
  moreover have "\<forall>m q r. EvExecuteTxQuery m q r \<in> set ?evs \<longrightarrow> r = None" using ok by auto
  moreover have "\<forall>g. EvGenerateUsername g \<in> set ?evs \<longrightarrow> g = Inr u" using nogen by auto
  moreover have "EvGenerateUsername (Inr u) \<in> set ?evs" by simp
  ultimately show ?thesis by blast
qed

text \<open>
  C2 on two runs. In the first the second of three statements is rejected: its error is
  returned, with no username, after a rollback and no commit. In the second every
  statement and the commit succeed: the generated username is returned.
\<close>

theorem NewUser_statement_failure_rolls_back_witness:
  "snd (fst (NewUser (exec_fails_on ''B'') (new_request [''A; B ;C'']) [])) =
     Some (External (Fault ''rejected'')) \<and>
   Username (fst (fst (NewUser (exec_fails_on ''B'') (new_request [''A; B ;C'']) []))) = '''' \<and>
   EvRollback \<in> set (snd (NewUser (exec_fails_on ''B'') (new_request [''A; B ;C'']) [])) \<and>
   EvCommit None \<notin> set (snd (NewUser (exec_fails_on ''B'') (new_request [''A; B ;C'']) [])) \<and>
   snd (fst (NewUser all_succeed (new_request [''A; B ;C'']) [])) = None \<and>
   Username (fst (fst (NewUser all_succeed (new_request [''A; B ;C'']) []))) = ''v-app-svc''"
proof -
  let ?m = "[(''name'', ''v-app-svc''), (''password'', ''P@ss1''),
       (''expiration'', ''2030-01-01 00:00:00+0000'')]"
  let ?bad = "NewUser (exec_fails_on ''B'') (new_request [''A; B ;C'']) []"
  let ?good = "NewUser all_succeed (new_request [''A; B ;C'']) []"
  obtain evs where evs: "snd ?bad = [] @ evs"
    and fail: "\<forall>m q e. EvExecuteTxQuery m q (Some e) \<in> set evs \<longrightarrow>
        snd (fst ?bad) = Some (External e) \<and> Username (fst (fst ?bad)) = '''' \<and>
        (\<exists>pre. evs = pre @ [EvExecuteTxQuery m q (Some e), EvRollback, EvUnlock]) \<and>
        (\<forall>r. EvCommit r \<notin> set evs)"
    using NewUser_statement_failure_rolls_back[of "exec_fails_on ''B''" "new_request [''A; B ;C'']" "[]"]
    by blast
  have "EvExecuteTxQuery ?m ''B'' (Some (Fault ''rejected'')) \<in> set evs"
    using evs by (auto simp: NewUser_run_rejected)
  with fail have bad: "snd (fst ?bad) = Some (External (Fault ''rejected''))"
    "Username (fst (fst ?bad)) = ''''"
    "\<exists>pre. evs = pre @ [EvExecuteTxQuery ?m ''B'' (Some (Fault ''rejected'')), EvRollback, EvUnlock]"
    "\<forall>r. EvCommit r \<notin> set evs"
    by blast+
  from bad(3) have "EvRollback \<in> set evs" by auto
  with evs bad(4) have tr: "EvRollback \<in> set (snd ?bad)" "EvCommit None \<notin> set (snd ?bad)" by simp_all
  obtain evs' where evs': "snd ?good = [] @ evs'"
    and ok: "EvCommit None \<in> set evs' \<longrightarrow>
        snd (fst ?good) = None \<and>
        (\<forall>m q r. EvExecuteTxQuery m q r \<in> set evs' \<longrightarrow> r = None) \<and>
        EvGenerateUsername (Inr (Username (fst (fst ?good)))) \<in> set evs' \<and>
        (\<forall>g. EvGenerateUsername g \<in> set evs' \<longrightarrow> g = Inr (Username (fst (fst ?good))))"
    using NewUser_statement_failure_rolls_back[of all_succeed "new_request [''A; B ;C'']" "[]"]
    by blast
  have c: "EvCommit None \<in> set evs'" and g: "EvGenerateUsername (Inr ''v-app-svc'') \<in> set evs'"
    using evs' by (auto simp: NewUser_run_accepted)
  from ok c have good: "snd (fst ?good) = None"
    "\<forall>g. EvGenerateUsername g \<in> set evs' \<longrightarrow> g = Inr (Username (fst (fst ?good)))"
    by blast+
  from good(2) g have "Username (fst (fst ?good)) = ''v-app-svc''" by auto
  with bad(1,2) tr good(1) show ?thesis by simp
qed

subsection \<open>C3: the order of the default revoke\<close>



subsection \<open>C4: a failed enumeration of the database users\<close>

text \<open>
  C4 does not hold for every failure of the enumeration. The login has one session, and
  its mapping rows are one row for a database \<open>db1\<close> followed by a row whose \<open>Scan\<close>
  fails: the kill of the session and the drop of the user in \<open>db1\<close> have been generated
  when the scan fails, the call returns the error of the scan, and it has executed no
  statement.
\<close>

theorem revokeUserDefault_scan_failure_counterexample:
  "scan_sessions (scans one_session) [] = Inr [killSQL 52] \<and>
   scan_mappings [Inr (mapped_to ''db1'')] ''v-app-svc'' [killSQL 52] =
     Inr [killSQL 52, dropUserSQL ''db1'' ''v-app-svc'' ''v-app-svc''] \<and>
   revokeUserDefault scan_fails ''v-app-svc'' [] =
     (Some (External (Fault ''scan failed'')),
      [EvConnection None,
       EvPrepareContext (disableSQL ''v-app-svc'') None,
       EvExecContext (disableSQL ''v-app-svc'') None,
       EvPrepareContext sessionSQL None,
       EvQueryContext sessionSQL [''v-app-svc''] None,
       EvPrepareContext mappingsSQL None,
       EvQueryContext mappingsSQL [''v-app-svc''] None,
       EvRowsClose mappingsSQL,
       EvStmtClose mappingsSQL,
       EvRowsClose sessionSQL,
       EvStmtClose sessionSQL,
       EvStmtClose (disableSQL ''v-app-svc'')]) \<and>
   executed (snd (revokeUserDefault scan_fails ''v-app-svc'' [])) = []"
proof -
  have a: "scan_sessions (scans one_session) [] = Inr [killSQL 52]"
    by (simp add: one_session_def)
  have b: "scan_mappings [Inr (mapped_to ''db1'')] ''v-app-svc'' [killSQL 52] =
     Inr [killSQL 52, dropUserSQL ''db1'' ''v-app-svc'' ''v-app-svc'']"
    by (simp add: mapped_to_def)
  have d: "executed (snd (revokeUserDefault scan_fails ''v-app-svc'' [])) = []"
    by (simp add: revokeUserDefault_run_scan_fails)
  show ?thesis using a b revokeUserDefault_run_scan_fails d by (intro conjI)
qed

text \<open>
  C4, amended: \<open>revoke_kills\<close> is the rest of \<open>revokeUserDefault\<close> once the session
  rows are there (from line 224). When the session rows give the kill statements, one of
  four things happens. The mapping statement cannot be prepared, or its query fails, or
  the scan of one of its rows fails: the error is returned as it is and no statement is
  executed. Or all rows are scanned: then every generated statement, the kills first, is
  executed once, in order, before the row error is checked; and if there is a row error,
  it is returned wrapped under the message of the statements that could not be
  generated, after these executions, and nothing but the deferred closes follows.
\<close>

theorem revoke_kills_enumeration_failure:
  assumes kills: "scan_sessions (scans sessionRows) [] = Inr kills"
  shows
    "(\<exists>e. revoke_kills d username sessionRows tr =
        (Some (External e), tr @ [EvPrepareContext mappingsSQL (Some e)])) \<or>
     (\<exists>e. revoke_kills d username sessionRows tr =
        (Some (External e),
         tr @ [EvPrepareContext mappingsSQL None,
               EvQueryContext mappingsSQL [username] (Some e),
               EvStmtClose mappingsSQL])) \<or>
     (\<exists>rows e.
        reply_QueryMappings d (tr @ [EvPrepareContext mappingsSQL None]) mappingsSQL [username] =
          Inr rows \<and>
        scan_mappings (scans rows) username kills = Inl e \<and>
        revoke_kills d username sessionRows tr =
          (Some (External e),
           tr @ [EvPrepareContext mappingsSQL None,
                 EvQueryContext mappingsSQL [username] None,
                 EvRowsClose mappingsSQL,
                 EvStmtClose mappingsSQL])) \<or>
     (\<exists>rows stmts rs rest.
        reply_QueryMappings d (tr @ [EvPrepareContext mappingsSQL None]) mappingsSQL [username] =
          Inr rows \<and>
        scan_mappings (scans rows) username kills = Inr stmts \<and>
        prefix kills stmts \<and>
        length rs = length stmts \<and>
        snd (revoke_kills d username sessionRows tr) =
          tr @ [EvPrepareContext mappingsSQL None, EvQueryContext mappingsSQL [username] None] @
            map2 (EvExecuteDBQuery []) stmts rs @ EvRowsErr mappingsSQL (Err rows) # rest \<and>
        (\<forall>e. Err rows = Some e \<longrightarrow>
           rest = [EvRowsClose mappingsSQL, EvStmtClose mappingsSQL] \<and>
           fst (revoke_kills d username sessionRows tr) =
             Some (Wrapf ''could not generate sql statements for all rows: {{err}}'' (External e))))"
proof (cases "reply_PrepareContext d tr mappingsSQL")
  case (Some e)
  with kills have "revoke_kills d username sessionRows tr =
      (Some (External e), tr @ [EvPrepareContext mappingsSQL (Some e)])"
    by (simp add: revoke_kills_def PrepareContext_def Let_def)
  then show ?thesis by (intro disjI1 exI[of _ e])
next
  case None
  let ?t1 = "tr @ [EvPrepareContext mappingsSQL None]"
  from None kills have k: "revoke_kills d username sessionRows tr =
      deferred (EvStmtClose mappingsSQL) (revoke_mappings d username kills ?t1)"
    by (simp add: revoke_kills_def PrepareContext_def Let_def)
  show ?thesis
  proof (cases "reply_QueryMappings d ?t1 mappingsSQL [username]")
    case (Inl e)
    then have "revoke_mappings d username kills ?t1 =
        (Some (External e), ?t1 @ [EvQueryContext mappingsSQL [username] (Some e)])"
      by (simp add: revoke_mappings_def QueryMappings_def outcome_def Let_def)
    with k have "revoke_kills d username sessionRows tr =
        (Some (External e),
         tr @ [EvPrepareContext mappingsSQL None,
               EvQueryContext mappingsSQL [username] (Some e),
               EvStmtClose mappingsSQL])"
      by (simp add: deferred_def)
    then show ?thesis by (intro disjI2 disjI1 exI[of _ e])
  next
    case (Inr rows)
    let ?t2 = "tr @ [EvPrepareContext mappingsSQL None, EvQueryContext mappingsSQL [username] None]"
    from Inr have m: "revoke_mappings d username kills ?t1 =
        deferred (EvRowsClose mappingsSQL) (revoke_cleanup d username kills rows ?t2)"
      by (simp add: revoke_mappings_def QueryMappings_def outcome_def Let_def)
    show ?thesis
    proof (cases "scan_mappings (scans rows) username kills")
      case e: (Inl e)
      then have "revoke_cleanup d username kills rows ?t2 = (Some (External e), ?t2)"
        by (simp add: revoke_cleanup_def)
      with k m have "revoke_kills d username sessionRows tr =
          (Some (External e),
           tr @ [EvPrepareContext mappingsSQL None,
                 EvQueryContext mappingsSQL [username] None,
                 EvRowsClose mappingsSQL,
                 EvStmtClose mappingsSQL])"
        by (simp add: deferred_def)
      with Inr e show ?thesis
        by (intro disjI2 disjI1 exI[of _ rows] exI[of _ e] conjI)
    next
      case s: (Inr stmts)
      from scan_mappings_drops[OF s] have p: "prefix kills stmts" by auto
      from revoke_cleanup_attempts[OF s, of d ?t2] obtain rs rest where
        len: "length rs = length stmts"
        and tr: "snd (revoke_cleanup d username kills rows ?t2) =
             ?t2 @ map2 (EvExecuteDBQuery []) stmts rs @ EvRowsErr mappingsSQL (Err rows) # rest"
        and err: "\<forall>e. Err rows = Some e \<longrightarrow> rest = [] \<and>
              fst (revoke_cleanup d username kills rows ?t2) =
                Some (Wrapf ''could not generate sql statements for all rows: {{err}}'' (External e))"
        by blast
      let ?rest = "rest @ [EvRowsClose mappingsSQL, EvStmtClose mappingsSQL]"
      have f: "fst (revoke_kills d username sessionRows tr) =
          fst (revoke_cleanup d username kills rows ?t2)"
        by (simp add: k m deferred_def)
      have t: "snd (revoke_kills d username sessionRows tr) =
          tr @ [EvPrepareContext mappingsSQL None, EvQueryContext mappingsSQL [username] None] @
            map2 (EvExecuteDBQuery []) stmts rs @ EvRowsErr mappingsSQL (Err rows) # ?rest"
        by (simp add: k m deferred_def tr)
      have r: "\<forall>e. Err rows = Some e \<longrightarrow>
           ?rest = [EvRowsClose mappingsSQL, EvStmtClose mappingsSQL] \<and>
           fst (revoke_kills d username sessionRows tr) =
             Some (Wrapf ''could not generate sql statements for all rows: {{err}}'' (External e))"
        using err f by simp
      show ?thesis
        using Inr s p len t r
        by (intro disjI2 exI[of _ rows] exI[of _ stmts] exI[of _ rs] exI[of _ ?rest] conjI)
    qed
  qed
qed

text \<open>
  C4, amended, on a login with one session and one database user whose mapping result
  set ends with an error: the kill and the drop are executed, and the row error is
  returned wrapped.
\<close>

theorem revoke_kills_enumeration_failure_witness:
  "scan_sessions (scans one_session) [] = Inr [killSQL 52] \<and>
   fst (revoke_kills rows_cut_short ''v-app-svc'' one_session []) =
     Some (Wrapf ''could not generate sql statements for all rows: {{err}}''
             (External (Fault ''connection lost''))) \<and>
   map fst (executed (snd (revoke_kills rows_cut_short ''v-app-svc'' one_session []))) =
     [killSQL 52, dropUserSQL ''db1'' ''v-app-svc'' ''v-app-svc'']"
proof -
  let ?run = "revoke_kills rows_cut_short ''v-app-svc'' one_session []"
  let ?rows = "\<lparr>scans = [Inr (mapped_to ''db1'')], Err = Some (Fault ''connection lost'')\<rparr>"
  have k: "scan_sessions (scans one_session) [] = Inr [killSQL 52]"
    by (simp add: one_session_def)
  have rep: "reply_QueryMappings rows_cut_short ([] @ [EvPrepareContext mappingsSQL None])
      mappingsSQL [''v-app-svc''] = Inr ?rows"
    by (simp add: rows_cut_short_def login_in_use_def)
  have tr: "snd ?run =
      [EvPrepareContext mappingsSQL None,
       EvQueryContext mappingsSQL [''v-app-svc''] None,
       EvExecuteDBQuery [] (killSQL 52) None,
       EvExecuteDBQuery [] (dropUserSQL ''db1'' ''v-app-svc'' ''v-app-svc'') None,
       EvRowsErr mappingsSQL (Some (Fault ''connection lost'')),
       EvRowsClose mappingsSQL,
       EvStmtClose mappingsSQL]"
    by (simp add: revoke_kills_run_rows_cut_short)
  have ex: "map fst (executed (snd ?run)) =
      [killSQL 52, dropUserSQL ''db1'' ''v-app-svc'' ''v-app-svc'']"
    unfolding tr by simp
  have "fst ?run = Some (Wrapf ''could not generate sql statements for all rows: {{err}}''
             (External (Fault ''connection lost'')))"
    using revoke_kills_enumeration_failure[OF k, of rows_cut_short "''v-app-svc''" "[]"]
  proof (elim disjE exE conjE)
    fix e
    assume "?run = (Some (External e), [] @ [EvPrepareContext mappingsSQL (Some e)])"
    then have "snd ?run = [EvPrepareContext mappingsSQL (Some e)]" by simp
    with tr show ?thesis by simp
  next
    fix e
    assume "?run = (Some (External e),
         [] @ [EvPrepareContext mappingsSQL None,
               EvQueryContext mappingsSQL [''v-app-svc''] (Some e),
               EvStmtClose mappingsSQL])"
    then have "snd ?run = [EvPrepareContext mappingsSQL None,
               EvQueryContext mappingsSQL [''v-app-svc''] (Some e),
               EvStmtClose mappingsSQL]" by simp
    with tr show ?thesis by simp
  next
    fix rows e
    assume "?run = (Some (External e),
           [] @ [EvPrepareContext mappingsSQL None,
                 EvQueryContext mappingsSQL [''v-app-svc''] None,
                 EvRowsClose mappingsSQL,
                 EvStmtClose mappingsSQL])"
    then have "snd ?run = [EvPrepareContext mappingsSQL None,
                 EvQueryContext mappingsSQL [''v-app-svc''] None,
                 EvRowsClose mappingsSQL,
                 EvStmtClose mappingsSQL]" by simp
    with tr show ?thesis by simp
  next
    fix rows stmts rs rest
    assume r: "reply_QueryMappings rows_cut_short ([] @ [EvPrepareContext mappingsSQL None])
        mappingsSQL [''v-app-svc''] = Inr rows"
      and err: "\<forall>e. Err rows = Some e \<longrightarrow>
           rest = [EvRowsClose mappingsSQL, EvStmtClose mappingsSQL] \<and>
           fst ?run =
             Some (Wrapf ''could not generate sql statements for all rows: {{err}}'' (External e))"
    from r rep have "rows = ?rows" by simp
    then have "Err rows = Some (Fault ''connection lost'')" by simp
    from mp[OF spec[OF err] this] show ?thesis by (elim conjE)
  qed
  with k ex show ?thesis by (intro conjI)
qed

subsection \<open>C5: the explicit statements of a delete are all attempted\<close>

text \<open>
  C5: for every \<open>DeleteUser\<close> request with at least one statement, either the connection
  producer fails (the wrapped connection error is returned and nothing is executed, there
  being no handle), or every non-empty trimmed statement of the request is executed on
  the plain handle, in order, each with the placeholder map that holds only \<open>name\<close>, the
  username: one execution for each statement, whatever the earlier ones returned. The call
  returns no error exactly when no execution failed, and otherwise the multierror whose
  entries are the errors of the failed executions, one for each, in order.
\<close>

theorem DeleteUser_explicit_best_effort:
  assumes "Commands (del_Statements req) \<noteq> []"
  shows
    "(\<exists>e. DeleteUser d req tr =
         (Some (Errorf ''unable to get connection: %w'' (External e)), tr @ [EvConnection (Some e)])) \<or>
     (\<exists>rs. length rs = length (concat (map statements (Commands (del_Statements req)))) \<and>
        snd (DeleteUser d req tr) =
          tr @ EvConnection None #
            map2 (EvExecuteDBQuery [(''name'', del_Username req)])
              (concat (map statements (Commands (del_Statements req)))) rs \<and>
        (fst (DeleteUser d req tr) = None \<longleftrightarrow> (\<forall>r\<in>set rs. r = None)) \<and>
        (fst (DeleteUser d req tr) \<noteq> None \<longrightarrow>
           fst (DeleteUser d req tr) = Some (MultiError (map External (failures rs)))))"
proof (cases "reply_Connection d tr")
  case (Some e)
  with assms have "DeleteUser d req tr =
         (Some (Errorf ''unable to get connection: %w'' (External e)), tr @ [EvConnection (Some e)])"
    by (simp add: DeleteUser_def getConnection_def Let_def)
  then show ?thesis by blast
next
  case None
  let ?Q = "concat (map statements (Commands (del_Statements req)))"
  let ?t = "tr @ [EvConnection None]"
  obtain rs tr' where run: "run_each d [(''name'', del_Username req)] ?Q ?t = (rs, tr')"
    by fastforce
  from run_each_trace[OF run] have len: "length rs = length ?Q"
    and tr': "tr' = ?t @ map2 (EvExecuteDBQuery [(''name'', del_Username req)]) ?Q rs"
    by blast+
  have res: "DeleteUser d req tr = (ErrorOrNil (map External (failures rs)), tr')"
    using assms None run
    by (simp add: DeleteUser_def getConnection_def Let_def DeleteUser_commands_run)
  have a: "fst (DeleteUser d req tr) = None \<longleftrightarrow> (\<forall>r\<in>set rs. r = None)"
    using res by (simp add: ErrorOrNil_def failures_Nil)
  have b: "fst (DeleteUser d req tr) \<noteq> None \<longrightarrow>
           fst (DeleteUser d req tr) = Some (MultiError (map External (failures rs)))"
    using res by (simp add: ErrorOrNil_def)
  have c: "snd (DeleteUser d req tr) =
          tr @ EvConnection None # map2 (EvExecuteDBQuery [(''name'', del_Username req)]) ?Q rs"
    using res tr' by simp
  show ?thesis
    using len a b c by (intro disjI2 exI[of _ rs] conjI)
qed

text \<open>
  C5 on the request \<open>S1; S2\<close> where \<open>S1\<close> is rejected: \<open>S2\<close> is executed all the same,
  and the error returned has the one entry of \<open>S1\<close>.
\<close>

theorem DeleteUser_explicit_best_effort_witness:
  "Commands (del_Statements (delete_request [''S1; S2''])) \<noteq> [] \<and>
   fst (DeleteUser (exec_fails_on ''S1'') (delete_request [''S1; S2'']) []) =
     Some (MultiError [External (Fault ''rejected'')]) \<and>
   EvExecuteDBQuery [(''name'', ''v-app-svc'')] ''S2'' None
     \<in> set (snd (DeleteUser (exec_fails_on ''S1'') (delete_request [''S1; S2'']) []))"
proof -
  let ?req = "delete_request [''S1; S2'']"
  let ?run = "DeleteUser (exec_fails_on ''S1'') ?req []"
  let ?m = "[(''name'', ''v-app-svc'')]"
  let ?Q = "concat (map statements (Commands (del_Statements ?req)))"
  have c: "Commands (del_Statements ?req) \<noteq> []" by (simp add: delete_request_def)
  have q: "?Q = [''S1'', ''S2'']"
    by (simp add: delete_request_def statements_S1_S2)
  have u: "del_Username ?req = ''v-app-svc''" by (simp add: delete_request_def)
  have tr: "snd ?run = [EvConnection None, EvExecuteDBQuery ?m ''S1'' (Some (Fault ''rejected'')),
       EvExecuteDBQuery ?m ''S2'' None]"
    by (simp add: DeleteUser_run_best_effort)
  have s2: "EvExecuteDBQuery ?m ''S2'' None \<in> set (snd ?run)"
    unfolding tr by simp
  have "fst ?run = Some (MultiError [External (Fault ''rejected'')])"
    using DeleteUser_explicit_best_effort[OF c, of "exec_fails_on ''S1''" "[]"]
  proof (elim disjE exE conjE)
    fix e
    assume "?run = (Some (Errorf ''unable to get connection: %w'' (External e)),
        [] @ [EvConnection (Some e)])"
    then have "snd ?run = [EvConnection (Some e)]" by simp
    with tr show ?thesis by simp
  next
    fix rs
    assume len: "length rs = length ?Q"
      and evs: "snd ?run = [] @ EvConnection None # map2 (EvExecuteDBQuery [(''name'', del_Username ?req)]) ?Q rs"
      and ok: "(fst ?run = None) = (\<forall>r\<in>set rs. r = None)"
      and err: "fst ?run \<noteq> None \<longrightarrow> fst ?run = Some (MultiError (map External (failures rs)))"
    from len have len': "length rs = length [''S1'', ''S2'']" unfolding q .
    from evs have "[EvConnection None, EvExecuteDBQuery ?m ''S1'' (Some (Fault ''rejected'')),
       EvExecuteDBQuery ?m ''S2'' None] = [] @ EvConnection None # map2 (EvExecuteDBQuery ?m) [''S1'', ''S2''] rs"
      unfolding q u tr .
    from two_results[OF len' this] have rs: "rs = [Some (Fault ''rejected''), None]" .
    have "\<not> (\<forall>r\<in>set rs. r = None)" unfolding rs by simp
    with ok have "fst ?run \<noteq> None" by simp
    from mp[OF err this] have "fst ?run = Some (MultiError (map External (failures rs)))" .
    then show ?thesis unfolding rs by simp
  qed
  with c s2 show ?thesis by (intro conjI)
qed

subsection \<open>C6: the statements of a template\<close>



subsection \<open>C7: an update that changes nothing\<close>

text \<open>
  C7: an \<open>UpdateUser\<close> request with neither a new password nor a new expiration fails with
  the error "no changes requested"; one with only an expiration returns no error. In both
  cases the trace is unchanged: no collaborator is called, no statement executed.
\<close>

theorem UpdateUser_no_change:
  "(upd_Password req = None \<and> upd_Expiration req = None \<longrightarrow>
      UpdateUser d req tr = (Some (ErrorNew ''no changes requested''), tr)) \<and>
   (upd_Password req = None \<and> upd_Expiration req \<noteq> None \<longrightarrow>
      UpdateUser d req tr = (None, tr))"
  by (simp add: UpdateUser_def)

text \<open>C7 on two requests: nothing to change, and only an expiration.\<close>

theorem UpdateUser_no_change_witness:
  "upd_Password (update_request None None) = None \<and>
   upd_Expiration (update_request None None) = None \<and>
   UpdateUser all_succeed (update_request None None) [] =
     (Some (ErrorNew ''no changes requested''), []) \<and>
   upd_Password (update_request None (Some (new_expiration 1700000000))) = None \<and>
   upd_Expiration (update_request None (Some (new_expiration 1700000000))) \<noteq> None \<and>
   UpdateUser all_succeed (update_request None (Some (new_expiration 1700000000))) [] = (None, [])"
  using UpdateUser_no_change[of "update_request None None" all_succeed "[]"]
    UpdateUser_no_change[of "update_request None (Some (new_expiration 1700000000))" all_succeed "[]"]
  by (simp add: update_request_def)

subsection \<open>C8: errors leave the plugin with the password replaced\<close>




subsection \<open>C10: the expiration of an update is ignored\<close>

text \<open>
  C10: for an \<open>UpdateUser\<close> request with a new password, the call is the password update
  and nothing else; whatever the expiration of the request is (absent or any value), the
  result and the whole trace are the same; and every statement that the call executes
  gets the placeholder map \<open>name\<close>, \<open>username\<close>, \<open>password\<close>, with no entry for an
  expiration.
\<close>

theorem UpdateUser_ignores_expiration:
  assumes "upd_Password req = Some cp"
  shows "UpdateUser d req tr = updateUserPass d (upd_Username req) cp tr \<and>
    (\<forall>x. UpdateUser d (req\<lparr>upd_Expiration := x\<rparr>) tr = UpdateUser d req tr) \<and>
    (\<forall>m q r. EvExecuteTxQuery m q r \<in> set (snd (UpdateUser d req tr)) \<longrightarrow>
       EvExecuteTxQuery m q r \<in> set tr \<or>
       m = [(''name'', upd_Username req), (''username'', upd_Username req),
            (''password'', NewPassword cp)])"
proof -
  have run: "UpdateUser d req tr = updateUserPass d (upd_Username req) cp tr"
    using assms by (simp add: UpdateUser_def)
  have "\<forall>x. UpdateUser d (req\<lparr>upd_Expiration := x\<rparr>) tr = UpdateUser d req tr"
    using assms by (simp add: UpdateUser_def)
  moreover have "\<forall>m q r. EvExecuteTxQuery m q r \<in> set (snd (UpdateUser d req tr)) \<longrightarrow>
       EvExecuteTxQuery m q r \<in> set tr \<or>
       m = [(''name'', upd_Username req), (''username'', upd_Username req),
            (''password'', NewPassword cp)]"
    using updateUserPass_maps[of _ _ _ d "upd_Username req" cp tr]
    by (simp add: run rotate_placeholders_def)
  ultimately show ?thesis using run by blast
qed

text \<open>C10 on a request with a new password and a new expiration.\<close>

theorem UpdateUser_ignores_expiration_witness:
  "upd_Password (update_request (Some (new_password [])) (Some (new_expiration 1700000000))) =
     Some (new_password []) \<and>
   UpdateUser all_succeed (update_request (Some (new_password [])) (Some (new_expiration 1700000000))) [] =
     updateUserPass all_succeed ''v-app-svc'' (new_password []) [] \<and>
   UpdateUser all_succeed (update_request (Some (new_password [])) None) [] =
     UpdateUser all_succeed (update_request (Some (new_password [])) (Some (new_expiration 1700000000))) [] \<and>
   EvExecuteTxQuery [(''name'', ''v-app-svc''), (''username'', ''v-app-svc''), (''password'', ''N3w'')]
        (''ALTER LOGIN [{{username}}] WITH PASSWORD = '' @ [CHR 0x27] @ ''{{password}}'' @ [CHR 0x27])
        None
     \<in> set (snd (UpdateUser all_succeed
          (update_request (Some (new_password [])) (Some (new_expiration 1700000000))) []))"
proof -
  let ?req = "update_request (Some (new_password [])) (Some (new_expiration 1700000000))"
  have p: "upd_Password ?req = Some (new_password [])" by (simp add: update_request_def)
  have e: "?req\<lparr>upd_Expiration := None\<rparr> = update_request (Some (new_password [])) None"
    by (simp add: update_request_def)
  have u: "upd_Username ?req = ''v-app-svc''" by (simp add: update_request_def)
  have a: "UpdateUser all_succeed ?req [] =
      updateUserPass all_succeed ''v-app-svc'' (new_password []) []"
    using UpdateUser_ignores_expiration[OF p, of all_succeed "[]"] u by simp
  have "\<forall>x. UpdateUser all_succeed (?req\<lparr>upd_Expiration := x\<rparr>) [] = UpdateUser all_succeed ?req []"
    using UpdateUser_ignores_expiration[OF p, of all_succeed "[]"] by blast
  then have "UpdateUser all_succeed (?req\<lparr>upd_Expiration := None\<rparr>) [] = UpdateUser all_succeed ?req []"
    by blast
  then have b: "UpdateUser all_succeed (update_request (Some (new_password [])) None) [] =
      UpdateUser all_succeed ?req []"
    by (simp only: e)
  have c: "EvExecuteTxQuery [(''name'', ''v-app-svc''), (''username'', ''v-app-svc''), (''password'', ''N3w'')]
        (''ALTER LOGIN [{{username}}] WITH PASSWORD = '' @ [CHR 0x27] @ ''{{password}}'' @ [CHR 0x27])
        None \<in> set (snd (UpdateUser all_succeed ?req []))"
    by (simp add: UpdateUser_run_both)
  from p a b c show ?thesis by (intro conjI)
qed

end
